theory Spec2Isabelle
  imports Complex_Main "HOL-Library.Sublist" "HOL-Library.Code_Target_Nat"
begin

section \<open>JavaScript strings\<close>

text \<open>
  A JavaScript string is a sequence of UTF-16 code units; \<open>length\<close>, \<open>includes\<close>,
  \<open>split\<close> and the regular expressions of the source all work on code units. A code unit
  is modelled by its number, so CJK text such as the category names of the corpus is a list
  of numbers above 127. \<open>js\<close> writes an ASCII literal.
\<close>

type_synonym jsstring = "nat list"

definition js :: "string \<Rightarrow> jsstring" where
  "js s = map of_char s"

text \<open>
  \<open>\s\<close> of a JavaScript regular expression, which is also what \<open>trim\<close> removes:
  the WhiteSpace and LineTerminator code points.
\<close>

definition isSpace :: "nat \<Rightarrow> bool" where
  "isSpace c \<longleftrightarrow>
     (9 \<le> c \<and> c \<le> 13) \<or> c = 32 \<or> c = 160 \<or> c = 5760 \<or> (8192 \<le> c \<and> c \<le> 8202) \<or>
     c = 8232 \<or> c = 8233 \<or> c = 8239 \<or> c = 8287 \<or> c = 12288 \<or> c = 65279"

text \<open>\<open>\w\<close> without the unicode flag: \<open>[A-Za-z0-9_]\<close>.\<close>

definition isWordChar :: "nat \<Rightarrow> bool" where
  "isWordChar c \<longleftrightarrow>
     (65 \<le> c \<and> c \<le> 90) \<or> (97 \<le> c \<and> c \<le> 122) \<or> (48 \<le> c \<and> c \<le> 57) \<or> c = 95"

text \<open>The range U+4E00 to U+9FA5 of the source's character classes.\<close>

definition isCJK :: "nat \<Rightarrow> bool" where
  "isCJK c \<longleftrightarrow> 19968 \<le> c \<and> c \<le> 40869"

text \<open>
  \<open>String.prototype.toLowerCase\<close> belongs to the runtime and maps every cased letter of
  Unicode. Its tables are not reproduced here: every function of the source that calls it
  takes it as its first argument \<open>toLowerCase\<close>, and the properties below are proved for
  every function in its place.
\<close>

type_synonym lowercase = "jsstring \<Rightarrow> jsstring"

text \<open>
  What the runtime's function does on ASCII and CJK text: the capitals \<open>A\<close> to \<open>Z\<close> are
  mapped. It stands for the runtime's function in the examples, which are ASCII.
\<close>

definition lowerUnit :: "nat \<Rightarrow> nat" where
  "lowerUnit c = (if 65 \<le> c \<and> c \<le> 90 then c + 32 else c)"

definition asciiToLowerCase :: lowercase where
  "asciiToLowerCase s = map lowerUnit s"

text \<open>The same with the capitals of Latin-1, for an example with accented letters.\<close>

definition latin1ToLowerCase :: lowercase where
  "latin1ToLowerCase s =
     map (\<lambda>c. if (65 \<le> c \<and> c \<le> 90) \<or> (192 \<le> c \<and> c \<le> 222 \<and> c \<noteq> 215) then c + 32 else c) s"

text \<open>\<open>haystack.includes(needle)\<close> (\<open>includes\<close> is reserved in Isabelle): the needle occurs as a contiguous run.\<close>

definition stringIncludes :: "jsstring \<Rightarrow> jsstring \<Rightarrow> bool" where
  "stringIncludes haystack needle = sublist needle haystack"

text \<open>
  \<open>s.split(/[...]+/)\<close> for a character class \<open>P\<close>: the pieces between the maximal runs of
  separators. A separator at the start or at the end yields an empty piece there, and the
  empty string yields one empty piece.
\<close>

function splitRe :: "(nat \<Rightarrow> bool) \<Rightarrow> jsstring \<Rightarrow> jsstring list" where
  "splitRe P s =
     (let piece = takeWhile (\<lambda>c. \<not> P c) s; rest = dropWhile (\<lambda>c. \<not> P c) s
      in if rest = [] then [piece] else piece # splitRe P (dropWhile P (tl rest)))"
  by pat_completeness auto
termination
proof (relation "measure (\<lambda>(P, s). length s)")
  show "wf (measure (\<lambda>(P, s). length s))" by simp
next
  fix P :: "nat \<Rightarrow> bool" and s :: jsstring and piece rest
  assume r: "rest = dropWhile (\<lambda>c. \<not> P c) s" and ne: "rest \<noteq> []"
  have "length (dropWhile P (tl rest)) \<le> length (tl rest)"
    by (rule length_dropWhile_le)
  also have "length (tl rest) < length rest"
    using ne by (cases rest) simp_all
  also have "length rest \<le> length s"
    unfolding r by (rule length_dropWhile_le)
  finally show "((P, dropWhile P (tl rest)), (P, s)) \<in> measure (\<lambda>(P, s). length s)"
    by simp
qed

declare splitRe.simps [simp del]

text \<open>\<open>Array.from(new Set(words))\<close>: a set keeps each value once, at its first insertion.\<close>

definition fromSet :: "'a list \<Rightarrow> 'a list" where
  "fromSet xs = foldl (\<lambda>acc x. if x \<in> set acc then acc else acc @ [x]) [] xs"

text \<open>\<open>array.slice(0, end)\<close>: a negative \<open>end\<close> counts from the end of the array.\<close>

definition slice0 :: "'a list \<Rightarrow> int \<Rightarrow> 'a list" where
  "slice0 xs e =
     (if e < 0 then take (nat (max (int (length xs) + e) 0)) xs else take (nat e) xs)"

section \<open>The template retriever\<close>

text \<open>
  The records of the source. The fields \<open>id\<close>, \<open>keywords\<close> and \<open>text\<close> are called \<open>tid\<close>,
  \<open>keywordList\<close> and \<open>text_body\<close> here, since Isabelle takes those words for itself; of an
  email, the fields the retriever and the service read are kept.
\<close>

record Template =
  tid :: jsstring
  category :: jsstring
  scenario :: jsstring
  keywordList :: "jsstring list"
  languages :: "(jsstring \<times> jsstring) list"

record ProcessedEmail =
  from_address :: jsstring
  subject :: jsstring
  text_body :: jsstring

text \<open>Scores are sums of 2, 1 and 0.5, which a double represents exactly.\<close>

record TemplateMatch =
  template :: Template
  score :: rat
  matchedKeywords :: "jsstring list"

text \<open>
  The \<open>Map\<close> of the category index keeps its keys in insertion order, and the fallback of
  \<open>getCandidates\<close> iterates over them in that order: an association list.
\<close>

record TemplateRetriever =
  templates :: "Template list"
  categoryIndex :: "(jsstring \<times> Template list) list"

text \<open>
  One step of the \<open>forEach\<close> of \<open>buildIndexes\<close>, for the category index. The keyword
  index, which only \<open>searchByKeyword\<close> reads, is left out.
\<close>

definition indexTemplate ::
  "(jsstring \<times> Template list) list \<Rightarrow> Template \<Rightarrow> (jsstring \<times> Template list) list" where
  "indexTemplate idx t =
     (let idx1 = (if category t \<in> set (map fst idx) then idx else idx @ [(category t, [])])
      in map (\<lambda>(k, ts). if k = category t then (k, ts @ [t]) else (k, ts)) idx1)"

definition buildIndexes :: "Template list \<Rightarrow> (jsstring \<times> Template list) list" where
  "buildIndexes ts = foldl indexTemplate [] ts"

text \<open>The constructor, after the corpus file has been read and parsed.\<close>

definition newTemplateRetriever :: "Template list \<Rightarrow> TemplateRetriever" where
  "newTemplateRetriever ts = \<lparr>templates = ts, categoryIndex = buildIndexes ts\<rparr>"

definition getCategories :: "TemplateRetriever \<Rightarrow> jsstring list" where
  "getCategories r = map fst (categoryIndex r)"

definition getTemplatesByCategory :: "TemplateRetriever \<Rightarrow> jsstring \<Rightarrow> Template list" where
  "getTemplatesByCategory r c = (case map_of (categoryIndex r) c of Some ts \<Rightarrow> ts | None \<Rightarrow> [])"

text \<open>The test of the fallback loop of \<open>getCandidates\<close> on one key of the index.\<close>

definition similarCategory :: "lowercase \<Rightarrow> jsstring \<Rightarrow> jsstring \<Rightarrow> bool" where
  "similarCategory toLowerCase normalizedCategory key \<longleftrightarrow>
     stringIncludes (toLowerCase key) normalizedCategory
     \<or> stringIncludes normalizedCategory (toLowerCase key)"

definition getCandidates :: "lowercase \<Rightarrow> TemplateRetriever \<Rightarrow> jsstring \<Rightarrow> Template list" where
  "getCandidates toLowerCase r c =
     (let fallback =
        (case find (\<lambda>(key, ts). similarCategory toLowerCase (toLowerCase c) key) (categoryIndex r) of
           Some (key, ts) \<Rightarrow> ts
         | None \<Rightarrow> templates r)
      in case map_of (categoryIndex r) c of
           Some exactMatch \<Rightarrow> if length exactMatch > 0 then exactMatch else fallback
         | None \<Rightarrow> fallback)"

text \<open>\<open>extractKeywords\<close>: lowercase, blank out the special characters, split, keep the long words.\<close>

definition extractKeywords :: "lowercase \<Rightarrow> jsstring \<Rightarrow> jsstring list" where
  "extractKeywords toLowerCase txt =
     fromSet (filter (\<lambda>word. length word > 2)
       (splitRe isSpace
         (map (\<lambda>c. if isWordChar c \<or> isSpace c \<or> isCJK c then c else 32) (toLowerCase txt))))"

text \<open>The body of the \<open>forEach\<close> over the keywords of a template, on the pair of its two variables.\<close>

definition scoreKeyword ::
  "lowercase \<Rightarrow> jsstring list \<Rightarrow> jsstring \<Rightarrow> rat \<times> jsstring list \<Rightarrow> jsstring
     \<Rightarrow> rat \<times> jsstring list" where
  "scoreKeyword toLowerCase emailKeywords emailText st keyword =
     (let normalizedKeyword = toLowerCase keyword;
          st1 = (if normalizedKeyword \<in> set emailKeywords
                 then (fst st + 2, snd st @ [keyword]) else st)
      in if stringIncludes emailText normalizedKeyword
         then (fst st1 + 1, if keyword \<in> set (snd st1) then snd st1 else snd st1 @ [keyword])
         else st1)"

definition isScenarioSeparator :: "nat \<Rightarrow> bool" where
  "isScenarioSeparator c \<longleftrightarrow> isSpace c \<or> c = 44 \<or> c = 65292 \<or> c = 12289"

definition scenarioWords :: "lowercase \<Rightarrow> Template \<Rightarrow> jsstring list" where
  "scenarioWords toLowerCase t = splitRe isScenarioSeparator (toLowerCase (scenario t))"

definition scoreScenarioWord :: "jsstring \<Rightarrow> rat \<Rightarrow> jsstring \<Rightarrow> rat" where
  "scoreScenarioWord emailText sc word =
     (if length word > 2 \<and> stringIncludes emailText word then sc + 1 / 2 else sc)"

definition calculateScore ::
  "lowercase \<Rightarrow> Template \<Rightarrow> jsstring list \<Rightarrow> jsstring \<Rightarrow> rat \<times> jsstring list" where
  "calculateScore toLowerCase t emailKeywords emailText =
     (let st = foldl (scoreKeyword toLowerCase emailKeywords emailText) (0, []) (keywordList t)
      in (foldl (scoreScenarioWord emailText) (fst st) (scenarioWords toLowerCase t), snd st))"

definition emailTextOf :: "lowercase \<Rightarrow> ProcessedEmail \<Rightarrow> jsstring" where
  "emailTextOf toLowerCase email = toLowerCase (subject email @ [32] @ text_body email)"

definition scoreCandidate ::
  "lowercase \<Rightarrow> jsstring list \<Rightarrow> jsstring \<Rightarrow> Template \<Rightarrow> TemplateMatch" where
  "scoreCandidate toLowerCase emailWords emailText t =
     (let r = calculateScore toLowerCase t emailWords emailText
      in \<lparr>template = t, score = fst r, matchedKeywords = snd r\<rparr>)"

text \<open>
  \<open>sort((a, b) => b.score - a.score)\<close>: \<open>Array.prototype.sort\<close> is stable, so the result is the
  stable sort by descending score, here the stable insertion sort on the negated score.
\<close>

definition sortByScore :: "TemplateMatch list \<Rightarrow> TemplateMatch list" where
  "sortByScore ms = sort_key (\<lambda>m. - score m) ms"

definition findBestMatches ::
  "lowercase \<Rightarrow> TemplateRetriever \<Rightarrow> ProcessedEmail \<Rightarrow> jsstring \<Rightarrow> int \<Rightarrow> TemplateMatch list" where
  "findBestMatches toLowerCase r email c limit =
     (let candidates = getCandidates toLowerCase r c;
          emailText = emailTextOf toLowerCase email;
          emailWords = extractKeywords toLowerCase emailText;
          matches = map (scoreCandidate toLowerCase emailWords emailText) candidates
      in slice0 (sortByScore (filter (\<lambda>m. score m > 0) matches)) limit)"

section \<open>The language-model service\<close>

subsection \<open>The chat call and its retries\<close>

text \<open>
  What the network does with one request to the chat endpoint. No response ever starts; or
  \<open>fetch\<close> rejects after some milliseconds with an error of some name; or the response
  headers arrive after some milliseconds, and then the body is read, with one of five ends:
  the body never ends, reading it rejects with an error of some name, the status is not 2xx
  (with the text of the body), the reply has no choices, or the first choice has a content.
\<close>

datatype body =
  Stalls
| ReadRejects string
| NotOk nat jsstring
| NoChoices
| Content jsstring

datatype attempt =
  Silent
| Rejects nat string
| Responds nat body

text \<open>The errors \<open>chat\<close> throws; \<open>errorName\<close> is the \<open>name\<close> property the catch block reads.\<close>

datatype jserror =
  Rejected string
| ApiError nat jsstring
| NoResponse
| FailedAfterAllRetries

fun errorName :: "jserror \<Rightarrow> string" where
  "errorName (Rejected n) = n"
| "errorName (ApiError status txt) = ''Error''"
| "errorName NoResponse = ''Error''"
| "errorName FailedAfterAllRetries = ''Error''"

text \<open>
  What becomes of an awaited call: it returns a value, it throws an error, or it never
  settles and the caller waits for ever.
\<close>

datatype 'a outcome =
  Returns 'a
| Throws jserror
| Pending

text \<open>
  The lines of the try block after \<open>clearTimeout\<close>: \<open>response.text()\<close> or
  \<open>response.json()\<close> is awaited with no timer running.
\<close>

fun readBody :: "body \<Rightarrow> jsstring outcome" where
  "readBody Stalls = Pending"
| "readBody (ReadRejects n) = Throws (Rejected n)"
| "readBody (NotOk status txt) = Throws (ApiError status txt)"
| "readBody NoChoices = Throws NoResponse"
| "readBody (Content c) = Returns c"

text \<open>The delay of the abort timer, in milliseconds.\<close>

definition abortDelay :: nat where
  "abortDelay = 90000"

text \<open>
  The try block on one request. The timer is armed, then \<open>fetch\<close> is awaited: if it has not
  settled when the timer fires, the controller aborts it and it rejects with an
  \<open>AbortError\<close>. Once \<open>fetch\<close> has resolved with the headers, the timer is cleared and the body
  is read.
\<close>

fun tryRequest :: "attempt \<Rightarrow> jsstring outcome" where
  "tryRequest Silent = Throws (Rejected ''AbortError'')"
| "tryRequest (Rejects ms n) =
     (if ms < abortDelay then Throws (Rejected n) else Throws (Rejected ''AbortError''))"
| "tryRequest (Responds ms b) =
     (if ms < abortDelay then readBody b else Throws (Rejected ''AbortError''))"

definition isTimeout :: "jserror \<Rightarrow> bool" where
  "isTimeout error \<longleftrightarrow> errorName error = ''AbortError'' \<or> errorName error = ''TimeoutError''"

text \<open>
  The effects of \<open>chat\<close> that its result does not show: arming the abort timer with a delay,
  sending the request, clearing the timer, and waiting before a retry.
\<close>

datatype effect =
  AbortTimer nat
| Request
| ClearTimer
| Wait nat

text \<open>
  The service is outside the program: \<open>net k\<close> is what the network does with the \<open>k\<close>-th
  request of the process, for any \<open>net\<close>. The state counts the requests sent and logs the
  effects. The text of the prompts does not influence the control flow and is not modelled.
\<close>

record world =
  requests :: nat
  effects :: "effect list"

text \<open>\<open>clearTimeout\<close> is reached only when \<open>fetch\<close> resolves before the timer fires.\<close>

fun requestEffects :: "attempt \<Rightarrow> effect list" where
  "requestEffects (Responds ms b) =
     (if ms < abortDelay then [AbortTimer abortDelay, Request, ClearTimer]
      else [AbortTimer abortDelay, Request])"
| "requestEffects a = [AbortTimer abortDelay, Request]"

definition sendRequest :: "attempt \<Rightarrow> world \<Rightarrow> world" where
  "sendRequest a w = \<lparr>requests = requests w + 1, effects = effects w @ requestEffects a\<rparr>"

definition waitBeforeRetry :: "world \<Rightarrow> world" where
  "waitBeforeRetry w = w\<lparr>effects := effects w @ [Wait 2000]\<rparr>"

text \<open>The test of the catch block: retry on a timeout while attempts are left.\<close>

definition retries_left :: "int \<Rightarrow> int \<Rightarrow> jsstring outcome \<Rightarrow> bool" where
  "retries_left retries attempt r =
     (case r of
        Throws error \<Rightarrow> attempt < retries \<and> isTimeout error
      | Returns content \<Rightarrow> False
      | Pending \<Rightarrow> False)"

text \<open>
  The \<open>for\<close> loop of \<open>chat\<close> from the attempt number \<open>attempt\<close> on. When the body of a
  response never ends, the loop is stuck in its \<open>await\<close> and \<open>chat\<close> never settles.
\<close>

function chatLoop ::
  "(nat \<Rightarrow> attempt) \<Rightarrow> int \<Rightarrow> int \<Rightarrow> world \<Rightarrow> jsstring outcome \<times> world" where
  "chatLoop net retries attempt w =
     (if attempt \<le> retries
      then (let r = tryRequest (net (requests w)); w1 = sendRequest (net (requests w)) w
            in if retries_left retries attempt r
               then chatLoop net retries (attempt + 1) (waitBeforeRetry w1)
               else (r, w1))
      else (Throws FailedAfterAllRetries, w))"
  by pat_completeness auto
termination
  by (relation "measure (\<lambda>(net, retries, attempt, w). nat (retries + 1 - attempt))") auto

declare chatLoop.simps [simp del]

text \<open>\<open>chat\<close> with the default of two retries, which every caller uses.\<close>

definition chat :: "(nat \<Rightarrow> attempt) \<Rightarrow> world \<Rightarrow> jsstring outcome \<times> world" where
  "chat net w = chatLoop net 2 0 w"

text \<open>A result of \<open>chat\<close> that is a timeout error, as the catch block recognises it.\<close>

definition timedOut :: "jsstring outcome \<Rightarrow> bool" where
  "timedOut r = (case r of Throws error \<Rightarrow> isTimeout error | Returns content \<Rightarrow> False | Pending \<Rightarrow> False)"

subsection \<open>Parsing a reply\<close>

definition trim :: "jsstring \<Rightarrow> jsstring" where
  "trim s = rev (dropWhile isSpace (rev (dropWhile isSpace s)))"

text \<open>\<open>replace(/\s*```$/, '')\<close>: a closing fence at the very end goes, with the white space before it.\<close>

definition stripClosingFence :: "jsstring \<Rightarrow> jsstring" where
  "stripClosingFence s =
     (if suffix [96, 96, 96] s then rev (dropWhile isSpace (rev (take (length s - 3) s))) else s)"

text \<open>The cleaning of a reply before \<open>JSON.parse\<close>, the same in both callers.\<close>

definition cleanResponse :: "jsstring \<Rightarrow> jsstring" where
  "cleanResponse response =
     (let cleaned = trim response
      in if prefix ([96, 96, 96] @ js ''json'') cleaned
         then stripClosingFence (dropWhile isSpace (drop 7 cleaned))
         else if prefix [96, 96, 96] cleaned
         then stripClosingFence (dropWhile isSpace (drop 3 cleaned))
         else cleaned)"

subsection \<open>Analysing an email\<close>

datatype priority = Low | Medium | High | Urgent

record AnalysisResult =
  ar_language :: jsstring
  ar_category :: jsstring
  ar_intent :: jsstring
  ar_keywords :: "jsstring list"
  ar_sentiment :: jsstring
  ar_priority :: priority
  ar_suggestedActions :: "jsstring list"
  ar_suggestedTemplate :: "jsstring option"
  ar_reasoning :: jsstring
  ar_isImportant :: bool

text \<open>The object literal of the catch block of \<open>analyzeEmail\<close>.\<close>

definition defaultAnalysis :: AnalysisResult where
  "defaultAnalysis =
     \<lparr>ar_language = js ''en'',
      ar_category = [20449, 24687, 25910, 38598, 19982, 36319, 36827],
      ar_intent = js ''UNKNOWN'',
      ar_keywords = [],
      ar_sentiment = js ''neutral'',
      ar_priority = Medium,
      ar_suggestedActions = [js ''Review manually''],
      ar_suggestedTemplate = None,
      ar_reasoning = js ''Failed to parse AI response'',
      ar_isImportant = True\<rparr>"

text \<open>
  \<open>JSON.parse\<close> belongs to the runtime and is a parameter: \<open>None\<close> is the \<open>SyntaxError\<close> it
  throws. \<open>analyzeEmail\<close> returns the parsed value unchecked, under its declared type. The
  request is sent before the try block, so an error of \<open>chat\<close> is thrown to the caller.
\<close>

definition analyzeEmail ::
  "(jsstring \<Rightarrow> AnalysisResult option) \<Rightarrow> (nat \<Rightarrow> attempt) \<Rightarrow> world
     \<Rightarrow> AnalysisResult outcome \<times> world" where
  "analyzeEmail JSON_parse net w =
     (case chat net w of
        (Throws error, w1) \<Rightarrow> (Throws error, w1)
      | (Pending, w1) \<Rightarrow> (Pending, w1)
      | (Returns response, w1) \<Rightarrow>
          (case JSON_parse (cleanResponse response) of
             Some analysis \<Rightarrow> (Returns analysis, w1)
           | None \<Rightarrow> (Returns defaultAnalysis, w1)))"

subsection \<open>Selecting a template\<close>

text \<open>
  The \<open>selectedIndex\<close> property of the parsed reply: absent, \<open>null\<close> or a number, as the
  prompt asks for. A JSON number is a finite double, hence a rational; a literal that
  overflows to an infinity compares like a large number. Values of other types, which the
  comparisons would coerce, are not modelled.
\<close>

datatype jsvalue = Undefined | Null | Number rat

record Decision =
  selectedIndex :: jsvalue
  reasoning :: "jsstring option"

text \<open>
  What \<open>JSON.parse\<close> returns for a reply to the selection prompt: \<open>null\<close>, on which
  reading a property throws a \<open>TypeError\<close>, or a value whose properties can be read.
\<close>

datatype parsed = ParsedNull | Parsed Decision

record SelectedTemplate =
  sel_template :: Template
  sel_scenario :: jsstring
  sel_score :: rat
  sel_reasoning :: "jsstring option"

text \<open>\<open>array[x]\<close> for a number \<open>x\<close>: \<open>undefined\<close> unless \<open>x\<close> is an index of the array.\<close>

definition arrayGet :: "'a list \<Rightarrow> rat \<Rightarrow> 'a option" where
  "arrayGet xs x =
     (if 0 \<le> x \<and> of_int \<lfloor>x\<rfloor> = x \<and> nat \<lfloor>x\<rfloor> < length xs then Some (xs ! nat \<lfloor>x\<rfloor>) else None)"

text \<open>The object of the catch block of \<open>selectTemplateWithReasoning\<close>, built from \<open>allMatches[0]\<close>.\<close>

definition fallbackSelection :: "TemplateMatch list \<Rightarrow> SelectedTemplate" where
  "fallbackSelection allMatches =
     \<lparr>sel_template = template (hd allMatches),
      sel_scenario = scenario (template (hd allMatches)),
      sel_score = score (hd allMatches),
      sel_reasoning = Some (js ''Fallback to highest scoring template due to selection error'')\<rparr>"

text \<open>
  The try block after the reply has been parsed. Reading \<open>selected.template\<close> of an
  \<open>undefined\<close> element throws inside the try block, which the catch block turns into the
  fallback.
\<close>

definition decide :: "TemplateMatch list \<Rightarrow> parsed \<Rightarrow> SelectedTemplate option" where
  "decide allMatches p =
     (case p of
        ParsedNull \<Rightarrow> Some (fallbackSelection allMatches)
      | Parsed decision \<Rightarrow>
          (case selectedIndex decision of
             Undefined \<Rightarrow> None
           | Null \<Rightarrow> None
           | Number x \<Rightarrow>
               if x \<ge> 0 \<and> x < of_nat (length allMatches)
               then (case arrayGet allMatches x of
                       Some selected \<Rightarrow>
                         Some \<lparr>sel_template = template selected,
                               sel_scenario = scenario (template selected),
                               sel_score = score selected,
                               sel_reasoning = reasoning decision\<rparr>
                     | None \<Rightarrow> Some (fallbackSelection allMatches))
               else None))"

text \<open>
  The request is sent inside the try block: an error of \<open>chat\<close> ends in the fallback, like a
  reply that does not parse.
\<close>

definition selectTemplateWithReasoning ::
  "lowercase \<Rightarrow> (jsstring \<Rightarrow> parsed option) \<Rightarrow> (nat \<Rightarrow> attempt) \<Rightarrow> TemplateRetriever
     \<Rightarrow> ProcessedEmail \<Rightarrow> jsstring \<Rightarrow> world \<Rightarrow> SelectedTemplate option outcome \<times> world" where
  "selectTemplateWithReasoning toLowerCase JSON_parse net r email c w =
     (let allMatches = findBestMatches toLowerCase r email c 10
      in if length allMatches = 0 then (Returns None, w)
         else (case chat net w of
                 (Throws error, w1) \<Rightarrow> (Returns (Some (fallbackSelection allMatches)), w1)
               | (Pending, w1) \<Rightarrow> (Pending, w1)
               | (Returns response, w1) \<Rightarrow>
                   (case JSON_parse (cleanResponse response) of
                      None \<Rightarrow> (Returns (Some (fallbackSelection allMatches)), w1)
                    | Some p \<Rightarrow> (Returns (decide allMatches p), w1))))"

subsection \<open>Generating a response\<close>

record MatchedTemplate =
  mt_id :: jsstring
  mt_scenario :: jsstring
  mt_score :: rat

record ResponseResult =
  rr_response :: jsstring
  rr_language :: jsstring
  rr_matchedTemplates :: "MatchedTemplate list option"

text \<open>The second argument of \<open>generateResponse\<close>, every property of which is optional.\<close>

record AnalysisHints =
  h_category :: "jsstring option"
  h_intent :: "jsstring option"
  h_keywords :: "jsstring list option"
  h_suggestedTemplate :: "jsstring option"
  h_language :: "jsstring option"

text \<open>\<open>array.join(sep)\<close> on an array of strings.\<close>

fun join :: "jsstring \<Rightarrow> jsstring list \<Rightarrow> jsstring" where
  "join sep [] = []"
| "join sep [x] = x"
| "join sep (x # y # ys) = x @ sep @ join sep (y # ys)"

text \<open>A value interpolated into a template literal: \<open>undefined\<close> prints as that word.\<close>

definition interpolate :: "jsstring option \<Rightarrow> jsstring" where
  "interpolate v = (case v of Some s \<Rightarrow> s | None \<Rightarrow> js ''undefined'')"

text \<open>\<open>keywords?.join(', ') || placeholder\<close>, the placeholder being one Chinese character.\<close>

definition keywordsText :: "jsstring list option \<Rightarrow> jsstring" where
  "keywordsText kws =
     (let joined = (case kws of Some ks \<Rightarrow> join (js '', '') ks | None \<Rightarrow> [])
      in if joined \<noteq> [] then joined else [26080])"

text \<open>
  The manual-review notice. Its fixed parts are Chinese text, given by their code units; it
  names the category, the intent, the sender, the subject and the keywords, or a
  placeholder when there are no keywords.
\<close>

definition manualReviewMessage ::
  "jsstring \<Rightarrow> jsstring option \<Rightarrow> ProcessedEmail \<Rightarrow> jsstring list option \<Rightarrow> jsstring" where
  "manualReviewMessage c intent email kws =
     [55357, 56541, 32, 38656, 35201, 20154, 24037, 23457, 26680, 10, 10,
      35813, 37038, 20214, 24050, 34987, 20998, 26512, 20026, 34]
     @ c
     @ [34, 31867, 21035, 65292, 24847, 22270, 20026, 34]
     @ interpolate intent
     @ [34, 65292, 20294, 26410, 25214, 21040, 21512, 36866, 30340, 39044, 35774, 27169,
        26495, 12290, 10, 10, 37038, 20214, 20449, 24687, 65306, 10, 45, 32, 21457, 20214,
        20154, 58, 32]
     @ from_address email
     @ [10, 45, 32, 20027, 39064, 58, 32]
     @ subject email
     @ [10, 45, 32, 20851, 38190, 38382, 39064, 58, 32]
     @ keywordsText kws
     @ [10, 10, 35831, 20154, 24037, 23457, 26680, 24182, 25552, 20379, 36866, 24403, 30340,
        22238, 22797, 12290]"

text \<open>\<open>personalizeTemplate\<close>: one request, whose reply is trimmed; its errors are thrown on.\<close>

definition personalizeTemplate ::
  "(nat \<Rightarrow> attempt) \<Rightarrow> world \<Rightarrow> jsstring outcome \<times> world" where
  "personalizeTemplate net w =
     (case chat net w of
        (Throws error, w1) \<Rightarrow> (Throws error, w1)
      | (Pending, w1) \<Rightarrow> (Pending, w1)
      | (Returns response, w1) \<Rightarrow> (Returns (trim response), w1))"

text \<open>\<open>value || fallback\<close> on an optional string: \<open>undefined\<close> and the empty string are falsy.\<close>

definition orElse :: "jsstring option \<Rightarrow> jsstring \<Rightarrow> jsstring" where
  "orElse v d = (case v of Some s \<Rightarrow> if s \<noteq> [] then s else d | None \<Rightarrow> d)"

text \<open>
  The three ways \<open>generateResponse\<close> ends: with the personalized text of the selected
  template, with the manual-review notice, or with a free-form reply of the service. The
  local list \<open>matchedTemplates\<close> is passed along; only the first way adds to it.
\<close>

definition respondPersonalized ::
  "(nat \<Rightarrow> attempt) \<Rightarrow> jsstring \<Rightarrow> MatchedTemplate list \<Rightarrow> SelectedTemplate \<Rightarrow> world
     \<Rightarrow> ResponseResult outcome \<times> world" where
  "respondPersonalized net detectedLanguage matchedTemplates selectedTemplate w =
     (let matched = matchedTemplates @
            [\<lparr>mt_id = tid (sel_template selectedTemplate),
              mt_scenario = scenario (sel_template selectedTemplate),
              mt_score = sel_score selectedTemplate\<rparr>]
      in case personalizeTemplate net w of
           (Throws error, w1) \<Rightarrow> (Throws error, w1)
         | (Pending, w1) \<Rightarrow> (Pending, w1)
         | (Returns personalizedResponse, w1) \<Rightarrow>
             (Returns \<lparr>rr_response = personalizedResponse, rr_language = detectedLanguage,
                       rr_matchedTemplates = Some matched\<rparr>, w1))"

definition respondManualReview ::
  "jsstring \<Rightarrow> jsstring \<Rightarrow> ProcessedEmail \<Rightarrow> AnalysisHints \<Rightarrow> ResponseResult" where
  "respondManualReview detectedLanguage c email analysisResult =
     \<lparr>rr_response =
        manualReviewMessage c (h_intent analysisResult) email (h_keywords analysisResult),
      rr_language = detectedLanguage, rr_matchedTemplates = None\<rparr>"

definition respondFreeForm ::
  "(nat \<Rightarrow> attempt) \<Rightarrow> jsstring \<Rightarrow> MatchedTemplate list \<Rightarrow> world
     \<Rightarrow> ResponseResult outcome \<times> world" where
  "respondFreeForm net detectedLanguage matchedTemplates w =
     (case chat net w of
        (Throws error, w1) \<Rightarrow> (Throws error, w1)
      | (Pending, w1) \<Rightarrow> (Pending, w1)
      | (Returns reply, w1) \<Rightarrow>
          (Returns \<lparr>rr_response = reply, rr_language = detectedLanguage,
                    rr_matchedTemplates =
                      (if length matchedTemplates > 0 then Some matchedTemplates else None)\<rparr>, w1))"

text \<open>
  \<open>generateResponse\<close>. The service may have no retriever; the template branch needs the
  flag, a retriever and a category that is not empty, and then never falls through to the
  free-form reply.
\<close>

definition generateResponse ::
  "lowercase \<Rightarrow> (jsstring \<Rightarrow> parsed option) \<Rightarrow> (nat \<Rightarrow> attempt) \<Rightarrow> TemplateRetriever option
     \<Rightarrow> ProcessedEmail \<Rightarrow> AnalysisHints \<Rightarrow> bool \<Rightarrow> world \<Rightarrow> ResponseResult outcome \<times> world" where
  "generateResponse toLowerCase JSON_parse net templateRetriever email analysisResult useTemplates w =
     (let matchedTemplates = [];
          detectedLanguage = orElse (h_language analysisResult) (js ''en'')
      in if useTemplates \<and> templateRetriever \<noteq> None \<and> orElse (h_category analysisResult) [] \<noteq> []
         then
           (let c = the (h_category analysisResult) in
            case selectTemplateWithReasoning toLowerCase JSON_parse net (the templateRetriever) email c w of
              (Returns (Some selectedTemplate), w1) \<Rightarrow>
                respondPersonalized net detectedLanguage matchedTemplates selectedTemplate w1
            | (Returns None, w1) \<Rightarrow>
                (Returns (respondManualReview detectedLanguage c email analysisResult), w1)
            | (Throws error, w1) \<Rightarrow> (Throws error, w1)
            | (Pending, w1) \<Rightarrow> (Pending, w1))
         else respondFreeForm net detectedLanguage matchedTemplates w)"

section \<open>Example data\<close>

definition crashTemplate :: Template where
  "crashTemplate = \<lparr>tid = js ''policy_001'', category = js ''Refund policy'',
     scenario = js ''app crashes'',
     keywordList = [js ''crash''], languages = [(js ''en'', js ''Please update the app.'')]\<rparr>"

definition refundTemplate :: Template where
  "refundTemplate = \<lparr>tid = js ''refund_001'', category = js ''Refund'',
     scenario = js ''money back'',
     keywordList = [js ''refund'', [36864, 27454]], languages = [(js ''en'', js ''We will refund you.'')]\<rparr>"

definition cancelTemplate :: Template where
  "cancelTemplate = \<lparr>tid = js ''refund_002'', category = js ''Refund'',
     scenario = js ''cancel subscription'',
     keywordList = [js ''Refund'', js ''cancel''], languages = [(js ''en'', js ''Your plan is cancelled.'')]\<rparr>"

definition orderTemplate :: Template where
  "orderTemplate = \<lparr>tid = js ''refund_003'', category = js ''Refund'',
     scenario = js ''refund for an order'',
     keywordList = [js ''order''], languages = [(js ''en'', js ''We found your order.'')]\<rparr>"

text \<open>
  Templates with an accented letter: a category and a keyword that hold the code unit 233,
  the small e with acute accent, whose capital is the code unit 201.
\<close>

definition autreTemplate :: Template where
  "autreTemplate = \<lparr>tid = js ''a1'', category = js ''Autre'', scenario = js ''autre'',
     keywordList = [], languages = []\<rparr>"

definition donneesTemplate :: Template where
  "donneesTemplate = \<lparr>tid = js ''b1'', category = js ''Donn'' @ [233] @ js ''es'',
     scenario = js ''compte'', keywordList = [], languages = []\<rparr>"

definition reductionTemplate :: Template where
  "reductionTemplate = \<lparr>tid = js ''c1'', category = js ''Prix'', scenario = js ''prix'',
     keywordList = [js ''r'' @ [233] @ js ''duction''], languages = []\<rparr>"

definition exampleCorpus :: "Template list" where
  "exampleCorpus = [crashTemplate, refundTemplate, cancelTemplate, orderTemplate]"

definition exampleEmail :: ProcessedEmail where
  "exampleEmail = \<lparr>from_address = js ''ann@example.com'', subject = js ''Order 1234'',
     text_body = js ''I want a refund for my order''\<rparr>"

definition tokenEmail :: ProcessedEmail where
  "tokenEmail = \<lparr>from_address = js ''bob@example.com'', subject = [],
     text_body = js ''I want a refund for my order''\<rparr>"

text \<open>
  A network that does with the first requests as listed and is silent afterwards, and a
  fresh process.
\<close>

definition netOf :: "attempt list \<Rightarrow> nat \<Rightarrow> attempt" where
  "netOf xs k = (if k < length xs then xs ! k else Silent)"

definition world0 :: world where
  "world0 = \<lparr>requests = 0, effects = []\<rparr>"

text \<open>Replies to the selection prompt, and a parser that knows these replies only.\<close>

definition nullReply :: jsstring where
  "nullReply = js ''{'' @ [34] @ js ''selectedIndex'' @ [34] @ js '': null}''"

definition sevenReply :: jsstring where
  "sevenReply = js ''{'' @ [34] @ js ''selectedIndex'' @ [34] @ js '': 7}''"

definition oneReply :: jsstring where
  "oneReply = js ''{'' @ [34] @ js ''selectedIndex'' @ [34] @ js '': 1}''"

definition exampleParse :: "jsstring \<Rightarrow> parsed option" where
  "exampleParse s =
     (if s = nullReply then Some (Parsed \<lparr>selectedIndex = Null, reasoning = None\<rparr>)
      else if s = oneReply then Some (Parsed \<lparr>selectedIndex = Number 1, reasoning = Some (js ''fits'')\<rparr>)
      else if s = sevenReply then Some (Parsed \<lparr>selectedIndex = Number 7, reasoning = None\<rparr>)
      else if s = js ''{}'' then Some (Parsed \<lparr>selectedIndex = Undefined, reasoning = None\<rparr>)
      else if s = js ''null'' then Some ParsedNull
      else None)"

definition exampleHints :: AnalysisHints where
  "exampleHints = \<lparr>h_category = Some (js ''Refund''), h_intent = Some (js ''REFUND_REQUEST''),
     h_keywords = Some [js ''refund'', js ''order''], h_suggestedTemplate = None,
     h_language = None\<rparr>"

text \<open>A parser of analysis replies that accepts the empty object only.\<close>

definition strictParse :: "jsstring \<Rightarrow> AnalysisResult option" where
  "strictParse s = (if s = js ''{}'' then Some (defaultAnalysis\<lparr>ar_isImportant := False\<rparr>) else None)"

section \<open>Properties of the retriever\<close>

subsection \<open>The category index\<close>

lemma indexTemplate_keys:
  "fst ` set (indexTemplate idx t) = insert (category t) (fst ` set idx)"
  by (force simp: indexTemplate_def Let_def image_iff split: if_splits)

lemma indexTemplate_entry:
  assumes "(k, l) \<in> set (indexTemplate idx t)"
  shows "\<exists>l0. ((k, l0) \<in> set idx \<or> (k = category t \<and> l0 = [] \<and> category t \<notin> fst ` set idx))
            \<and> l = (if k = category t then l0 @ [t] else l0)"
  using assms by (auto simp: indexTemplate_def Let_def image_iff split: if_splits)

lemma buildIndexes_snoc: "buildIndexes (ts @ [t]) = indexTemplate (buildIndexes ts) t"
  by (simp add: buildIndexes_def)

lemma buildIndexes_keys: "fst ` set (buildIndexes ts) = category ` set ts"
proof (induction ts rule: rev_induct)
  case Nil
  show ?case by (simp add: buildIndexes_def)
next
  case (snoc t ts)
  then show ?case by (simp add: buildIndexes_snoc indexTemplate_keys)
qed

lemma buildIndexes_entry:
  "(k, l) \<in> set (buildIndexes ts) \<Longrightarrow> l = filter (\<lambda>t. category t = k) ts"
proof (induction ts arbitrary: k l rule: rev_induct)
  case Nil
  then show ?case by (simp add: buildIndexes_def)
next
  case (snoc t ts)
  from snoc.prems obtain l0 where
    src: "(k, l0) \<in> set (buildIndexes ts) \<or> (k = category t \<and> l0 = [] \<and> category t \<notin> fst ` set (buildIndexes ts))"
    and l: "l = (if k = category t then l0 @ [t] else l0)"
    unfolding buildIndexes_snoc by (blast dest: indexTemplate_entry)
  have "l0 = filter (\<lambda>t. category t = k) ts"
  proof (rule disjE [OF src])
    assume "(k, l0) \<in> set (buildIndexes ts)"
    then show ?thesis by (rule snoc.IH)
  next
    assume new: "k = category t \<and> l0 = [] \<and> category t \<notin> fst ` set (buildIndexes ts)"
    then have "k \<notin> category ` set ts" by (simp add: buildIndexes_keys)
    then have "filter (\<lambda>t. category t = k) ts = []" by (auto simp: filter_empty_conv)
    with new show ?thesis by simp
  qed
  with l show ?case by auto
qed

lemma buildIndexes_map_of:
  "map_of (buildIndexes ts) c =
     (if c \<in> category ` set ts then Some (filter (\<lambda>t. category t = c) ts) else None)"
proof (cases "c \<in> category ` set ts")
  case False
  then have "c \<notin> fst ` set (buildIndexes ts)" by (simp add: buildIndexes_keys)
  then have "map_of (buildIndexes ts) c = None" by (simp add: map_of_eq_None_iff)
  with False show ?thesis by simp
next
  case True
  then have "c \<in> fst ` set (buildIndexes ts)" by (simp add: buildIndexes_keys)
  then obtain l where m: "map_of (buildIndexes ts) c = Some l"
    by (metis map_of_eq_None_iff not_Some_eq)
  then have "(c, l) \<in> set (buildIndexes ts)" by (rule map_of_SomeD)
  then have "l = filter (\<lambda>t. category t = c) ts" by (rule buildIndexes_entry)
  with m True show ?thesis by simp
qed

lemma find_Some_in_set: "find P xs = Some x \<Longrightarrow> x \<in> set xs"
  by (induction xs) (auto split: if_splits)

lemma getCandidates_exact:
  assumes "c \<in> category ` set ts"
  shows "getCandidates lc (newTemplateRetriever ts) c = filter (\<lambda>t. category t = c) ts"
proof -
  from assms have "filter (\<lambda>t. category t = c) ts \<noteq> []"
    by (auto simp: filter_empty_conv)
  with assms show ?thesis
    by (simp add: getCandidates_def newTemplateRetriever_def buildIndexes_map_of Let_def)
qed

lemma getCandidates_subseq: "subseq (getCandidates lc (newTemplateRetriever ts) c) ts"
proof -
  let ?idx = "buildIndexes ts"
  let ?fallback = "case find (\<lambda>(key, l). similarCategory lc (lc c) key) ?idx of
                     Some (key, l) \<Rightarrow> l | None \<Rightarrow> ts"
  have fb: "subseq ?fallback ts"
  proof (cases "find (\<lambda>(key, l). similarCategory lc (lc c) key) ?idx")
    case None
    then show ?thesis by simp
  next
    case (Some kl)
    obtain key l where kl: "kl = (key, l)" by (cases kl)
    from Some kl have "(key, l) \<in> set ?idx" by (simp add: find_Some_in_set)
    then have "l = filter (\<lambda>t. category t = key) ts" by (rule buildIndexes_entry)
    with Some kl show ?thesis by simp
  qed
  show ?thesis
  proof (cases "c \<in> category ` set ts")
    case True
    then show ?thesis by (simp add: getCandidates_exact)
  next
    case False
    then have "getCandidates lc (newTemplateRetriever ts) c = ?fallback"
      by (simp add: getCandidates_def newTemplateRetriever_def buildIndexes_map_of Let_def
            split: option.splits)
    with fb show ?thesis by simp
  qed
qed

lemma getCandidates_unscoped:
  assumes "c \<notin> category ` set ts"
    and "\<forall>key \<in> category ` set ts. \<not> similarCategory lc (lc c) key"
  shows "getCandidates lc (newTemplateRetriever ts) c = ts"
proof -
  have "find (\<lambda>(key, l). similarCategory lc (lc c) key) (buildIndexes ts) = None"
    using assms(2) buildIndexes_keys [of ts] by (force simp: find_None_iff)
  with assms(1) show ?thesis
    by (simp add: getCandidates_def newTemplateRetriever_def buildIndexes_map_of Let_def)
qed

subsection \<open>Scoring\<close>

lemma scoreKeyword_mono: "fst st \<le> fst (scoreKeyword lc ew et st k)"
  by (simp add: scoreKeyword_def Let_def)

lemma foldl_scoreKeyword_mono: "fst st \<le> fst (foldl (scoreKeyword lc ew et) st ks)"
proof (induction ks arbitrary: st)
  case Nil
  show ?case by simp
next
  case (Cons k ks)
  have "fst st \<le> fst (scoreKeyword lc ew et st k)" by (rule scoreKeyword_mono)
  also have "\<dots> \<le> fst (foldl (scoreKeyword lc ew et) (scoreKeyword lc ew et st k) ks)" by (rule Cons.IH)
  finally show ?case by simp
qed

lemma foldl_scoreScenarioWord_mono: "sc \<le> foldl (scoreScenarioWord et) sc ws"
proof (induction ws arbitrary: sc)
  case Nil
  show ?case by simp
next
  case (Cons w ws)
  have "sc \<le> scoreScenarioWord et sc w" by (simp add: scoreScenarioWord_def)
  also have "\<dots> \<le> foldl (scoreScenarioWord et) (scoreScenarioWord et sc w) ws" by (rule Cons.IH)
  finally show ?case by simp
qed

lemma calculateScore_ge_keywords:
  "fst (foldl (scoreKeyword lc ew et) (0, []) (keywordList t)) \<le> fst (calculateScore lc t ew et)"
  by (simp add: calculateScore_def Let_def foldl_scoreScenarioWord_mono)




lemma scoreKeyword_both:
  "lc k \<in> set ew \<Longrightarrow> stringIncludes et (lc k) \<Longrightarrow>
   fst (scoreKeyword lc ew et st k) = fst st + 3"
  by (simp add: scoreKeyword_def Let_def)

lemma foldl_scoreKeyword_both:
  assumes "k \<in> set ks" "lc k \<in> set ew" "stringIncludes et (lc k)"
  shows "fst st + 3 \<le> fst (foldl (scoreKeyword lc ew et) st ks)"
proof -
  from assms(1) obtain xs ys where ks: "ks = xs @ k # ys" by (auto simp: in_set_conv_decomp)
  let ?mid = "foldl (scoreKeyword lc ew et) st xs"
  have "fst st + 3 \<le> fst ?mid + 3" using foldl_scoreKeyword_mono [where st = st and lc = lc and ew = ew and et = et and ks = xs] by simp
  also have "\<dots> = fst (scoreKeyword lc ew et ?mid k)" using assms(2,3) by (simp add: scoreKeyword_both)
  also have "\<dots> \<le> fst (foldl (scoreKeyword lc ew et) (scoreKeyword lc ew et ?mid k) ys)"
    by (rule foldl_scoreKeyword_mono)
  finally show ?thesis by (simp add: ks)
qed

subsection \<open>Tokens are substrings\<close>

lemma asciiToLowerCase_idem: "asciiToLowerCase (asciiToLowerCase s) = asciiToLowerCase s"
  by (simp add: asciiToLowerCase_def lowerUnit_def)

lemma set_fromSet_aux:
  "set (foldl (\<lambda>acc x. if x \<in> set acc then acc else acc @ [x]) acc xs) = set acc \<union> set xs"
  by (induction xs arbitrary: acc) auto

lemma set_fromSet: "set (fromSet xs) = set xs"
  by (simp add: fromSet_def set_fromSet_aux)

lemma splitRe_piece:
  "w \<in> set (splitRe P s) \<Longrightarrow> sublist w s \<and> (\<forall>c \<in> set w. \<not> P c)"
proof (induction P s rule: splitRe.induct)
  case (1 P s)
  let ?piece = "takeWhile (\<lambda>c. \<not> P c) s"
  let ?rest = "dropWhile (\<lambda>c. \<not> P c) s"
  from "1.prems" have "w = ?piece \<or> (?rest \<noteq> [] \<and> w \<in> set (splitRe P (dropWhile P (tl ?rest))))"
    by (subst (asm) splitRe.simps) (auto simp: Let_def split: if_splits)
  then show ?case
  proof
    assume "w = ?piece"
    then have "sublist w s" by simp
    moreover have "\<forall>c \<in> set w. \<not> P c" using \<open>w = ?piece\<close> by (auto dest: set_takeWhileD)
    ultimately show ?thesis by (rule conjI)
  next
    assume r: "?rest \<noteq> [] \<and> w \<in> set (splitRe P (dropWhile P (tl ?rest)))"
    then have ne: "?rest \<noteq> []" and mem: "w \<in> set (splitRe P (dropWhile P (tl ?rest)))"
      by (rule conjunct1, rule conjunct2)
    have ih: "sublist w (dropWhile P (tl ?rest)) \<and> (\<forall>c \<in> set w. \<not> P c)"
      by (rule "1.IH" [OF refl refl ne mem])
    have "suffix (dropWhile P (tl ?rest)) (tl ?rest)" by (rule suffix_dropWhile)
    also have "suffix (tl ?rest) ?rest" by (rule suffix_tl)
    also have "suffix ?rest s" by (rule suffix_dropWhile)
    finally have "sublist (dropWhile P (tl ?rest)) s" by (rule suffix_imp_sublist)
    moreover from ih have "sublist w (dropWhile P (tl ?rest))" by simp
    ultimately have "sublist w s" by (rule sublist_order.order.trans [rotated])
    with ih show ?thesis by blast
  qed
qed

lemma sublist_map_preimage:
  assumes "sublist w (map f xs)"
  shows "\<exists>w'. sublist w' xs \<and> map f w' = w"
proof -
  from assms obtain ps ss where m: "map f xs = ps @ w @ ss" by (auto simp: sublist_def)
  let ?w' = "take (length w) (drop (length ps) xs)"
  have "sublist ?w' (drop (length ps) xs)" by (rule sublist_take)
  moreover have "sublist (drop (length ps) xs) xs" by (rule sublist_drop)
  ultimately have "sublist ?w' xs" by (rule sublist_order.order.trans)
  moreover have "map f ?w' = take (length w) (drop (length ps) (map f xs))"
    by (simp add: take_map drop_map)
  then have "map f ?w' = w" by (simp add: m)
  ultimately show ?thesis by blast
qed

lemma extractKeywords_substring:
  assumes "w \<in> set (extractKeywords lc txt)"
  shows "stringIncludes (lc txt) w"
proof -
  let ?repl = "\<lambda>c. if isWordChar c \<or> isSpace c \<or> isCJK c then c else 32"
  from assms have "w \<in> set (splitRe isSpace (map ?repl (lc txt)))"
    by (simp add: extractKeywords_def set_fromSet)
  then have sub: "sublist w (map ?repl (lc txt))" and clean: "\<forall>c \<in> set w. \<not> isSpace c"
    by (auto dest: splitRe_piece)
  from sub obtain w' where w': "sublist w' (lc txt)" "map ?repl w' = w"
    by (blast dest: sublist_map_preimage)
  have sp: "isSpace 32" by (simp add: isSpace_def)
  have "map ?repl w' = w'"
  proof (rule map_idI)
    fix c assume "c \<in> set w'"
    then have "?repl c \<in> set w" using w'(2) by auto
    then have "\<not> isSpace (?repl c)" using clean by blast
    then show "?repl c = c" using sp by (auto split: if_splits)
  qed
  with w' show ?thesis by (simp add: stringIncludes_def)
qed

subsection \<open>Ranking\<close>

lemma slice0_take: "\<exists>k. slice0 xs e = take k xs"
  by (auto simp: slice0_def)

lemma length_slice0: "0 \<le> e \<Longrightarrow> int (length (slice0 xs e)) \<le> e"
  by (simp add: slice0_def)

lemma sortByScore_sorted: "sorted_wrt (\<lambda>a b. score b \<le> score a) (sortByScore ms)"
proof -
  have "sorted (map (\<lambda>m. - score m) (sort_key (\<lambda>m. - score m) ms))" by (rule sorted_sort_key)
  then show ?thesis by (simp add: sortByScore_def sorted_map)
qed

lemma sortByScore_stable:
  "filter (\<lambda>m. score m = s) (sortByScore ms) = filter (\<lambda>m. score m = s) ms"
proof -
  have "filter (\<lambda>m. - score m = - s) (sort_key (\<lambda>m. - score m) ms) = filter (\<lambda>m. - score m = - s) ms"
    by (rule sort_key_stable)
  then show ?thesis by (simp add: sortByScore_def)
qed

lemma set_sortByScore: "set (sortByScore ms) = set ms"
  by (simp add: sortByScore_def)

text \<open>
  Claim C1: for every lowercasing function, corpus, email, category and limit,
  \<open>findBestMatches\<close> returns its entries in non-increasing order of score, each with a
  positive score, so none with score 0, and for every score the entries with that score
  are, in their order, a subsequence of the scored corpus: entries with equal scores keep
  the order of their templates in the corpus. A limit is a number of entries: when it is
  not negative, at most that many entries are returned. (No list has a negative number of
  entries, so there the bound has no content; the other three parts hold for every limit.)
\<close>

theorem findBestMatches_ranked:
  "(0 \<le> limit \<longrightarrow> int (length (findBestMatches lc (newTemplateRetriever ts) email c limit)) \<le> limit)
   \<and> sorted_wrt (\<lambda>a b. score b \<le> score a) (findBestMatches lc (newTemplateRetriever ts) email c limit)
   \<and> (\<forall>m \<in> set (findBestMatches lc (newTemplateRetriever ts) email c limit). 0 < score m)
   \<and> (\<forall>s. subseq
          (filter (\<lambda>m. score m = s) (findBestMatches lc (newTemplateRetriever ts) email c limit))
          (map (scoreCandidate lc (extractKeywords lc (emailTextOf lc email)) (emailTextOf lc email)) ts))"
proof -
  define found where "found = findBestMatches lc (newTemplateRetriever ts) email c limit"
  let ?sc = "scoreCandidate lc (extractKeywords lc (emailTextOf lc email)) (emailTextOf lc email)"
  let ?pos = "filter (\<lambda>m. 0 < score m) (map ?sc (getCandidates lc (newTemplateRetriever ts) c))"
  have found: "found = slice0 (sortByScore ?pos) limit"
    by (simp add: found_def findBestMatches_def Let_def)
  obtain k where k: "found = take k (sortByScore ?pos)"
    using slice0_take [of "sortByScore ?pos" limit] found by auto
  have len: "int (length found) \<le> limit" if "0 \<le> limit"
    unfolding found using that by (rule length_slice0)
  have srt: "sorted_wrt (\<lambda>a b. score b \<le> score a) found"
    unfolding k by (rule sorted_wrt_take) (rule sortByScore_sorted)
  have "set found \<subseteq> set ?pos"
    unfolding k using set_take_subset [of k "sortByScore ?pos"] by (simp add: set_sortByScore)
  then have pos: "\<forall>m \<in> set found. 0 < score m" by auto
  have stable: "subseq (filter (\<lambda>m. score m = s) found) (map ?sc ts)" for s
  proof -
    have "subseq (take k (sortByScore ?pos)) (sortByScore ?pos)"
      by (simp add: prefix_imp_subseq take_is_prefix)
    then have "subseq (filter (\<lambda>m. score m = s) found) (filter (\<lambda>m. score m = s) (sortByScore ?pos))"
      unfolding k by (rule subseq_filter)
    also have "filter (\<lambda>m. score m = s) (sortByScore ?pos) = filter (\<lambda>m. score m = s) ?pos"
      by (rule sortByScore_stable)
    also have "subseq (filter (\<lambda>m. score m = s) ?pos) ?pos" by (rule subseq_filter_left)
    also have "subseq ?pos (map ?sc (getCandidates lc (newTemplateRetriever ts) c))"
      by (rule subseq_filter_left)
    also have "subseq (map ?sc (getCandidates lc (newTemplateRetriever ts) c)) (map ?sc ts)"
      by (rule subseq_map) (rule getCandidates_subseq)
    finally show ?thesis .
  qed
  from len srt pos stable show ?thesis unfolding found_def by blast
qed

text \<open>
  On the example corpus three templates of the category match. With the limit 3 the one
  with the highest score, the last of its category, comes first, and the two of score 3
  follow in corpus order; with the limit 2 the last of them is cut off.
\<close>

theorem findBestMatches_ranked_witness:
  "(0::int) \<le> 3
   \<and> map (\<lambda>m. (tid (template m), score m))
        (findBestMatches asciiToLowerCase (newTemplateRetriever exampleCorpus) exampleEmail (js ''Refund'') 3)
      = [(js ''refund_003'', 9 / 2), (js ''refund_001'', 3), (js ''refund_002'', 3)]
   \<and> map (\<lambda>m. (tid (template m), score m))
        (findBestMatches asciiToLowerCase (newTemplateRetriever exampleCorpus) exampleEmail (js ''Refund'') 2)
      = [(js ''refund_003'', 9 / 2), (js ''refund_001'', 3)]
   \<and> int (length (findBestMatches asciiToLowerCase (newTemplateRetriever exampleCorpus) exampleEmail
          (js ''Refund'') 3)) \<le> 3
   \<and> list_all (\<lambda>m. 0 < score m)
        (findBestMatches asciiToLowerCase (newTemplateRetriever exampleCorpus) exampleEmail (js ''Refund'') 3)"
proof -
  have h: "(0::int) \<le> 3" by simp
  have v: "map (\<lambda>m. (tid (template m), score m))
        (findBestMatches asciiToLowerCase (newTemplateRetriever exampleCorpus) exampleEmail (js ''Refund'') 3)
      = [(js ''refund_003'', 9 / 2), (js ''refund_001'', 3), (js ''refund_002'', 3)]"
    by code_simp
  have v2: "map (\<lambda>m. (tid (template m), score m))
        (findBestMatches asciiToLowerCase (newTemplateRetriever exampleCorpus) exampleEmail (js ''Refund'') 2)
      = [(js ''refund_003'', 9 / 2), (js ''refund_001'', 3)]"
    by code_simp
  from h v v2 findBestMatches_ranked [where limit = 3 and lc = asciiToLowerCase and ts = exampleCorpus
      and email = exampleEmail and c = "js ''Refund''"]
  show ?thesis unfolding list_all_iff by blast
qed

subsection \<open>The keyword bonuses\<close>

text \<open>
  Claim C5: the bonus of 2 for a keyword that is a token of the email and the bonus of 1 for
  a keyword that occurs in its text are added independently of each other. A keyword that
  is a token of the lowercased subject and body gets both, since a token is a substring of
  the text it was cut from: it adds exactly 3, and a template with such a keyword scores at
  least 3, before the scenario words and in total. \<open>extractKeywords\<close> lowercases the
  lowercased text once more; for a lowercasing function this is stated where the second
  pass changes nothing, which is proved of the ASCII one, so that there the statement has
  no such condition.
\<close>

theorem keyword_bonuses_add:
  "fst (scoreKeyword lc ew et st k) =
     fst st + (if lc k \<in> set ew then 2 else 0)
            + (if stringIncludes et (lc k) then 1 else 0)
   \<and> (lc (emailTextOf lc email) = emailTextOf lc email
        \<and> lc k \<in> set (extractKeywords lc (emailTextOf lc email)) \<longrightarrow>
        fst (scoreKeyword lc (extractKeywords lc (emailTextOf lc email)) (emailTextOf lc email) st k)
          = fst st + 3)
   \<and> (lc (emailTextOf lc email) = emailTextOf lc email
        \<and> k \<in> set (keywordList t) \<and> lc k \<in> set (extractKeywords lc (emailTextOf lc email)) \<longrightarrow>
        3 \<le> fst (foldl (scoreKeyword lc (extractKeywords lc (emailTextOf lc email)) (emailTextOf lc email))
                 (0, []) (keywordList t))
        \<and> 3 \<le> score (scoreCandidate lc (extractKeywords lc (emailTextOf lc email))
                       (emailTextOf lc email) t))
   \<and> (asciiToLowerCase k
          \<in> set (extractKeywords asciiToLowerCase (emailTextOf asciiToLowerCase email)) \<longrightarrow>
        fst (scoreKeyword asciiToLowerCase
              (extractKeywords asciiToLowerCase (emailTextOf asciiToLowerCase email))
              (emailTextOf asciiToLowerCase email) st k)
          = fst st + 3)
   \<and> (k \<in> set (keywordList t)
        \<and> asciiToLowerCase k
            \<in> set (extractKeywords asciiToLowerCase (emailTextOf asciiToLowerCase email)) \<longrightarrow>
        3 \<le> fst (foldl (scoreKeyword asciiToLowerCase
                        (extractKeywords asciiToLowerCase (emailTextOf asciiToLowerCase email))
                        (emailTextOf asciiToLowerCase email))
                 (0, []) (keywordList t))
        \<and> 3 \<le> score (scoreCandidate asciiToLowerCase
                       (extractKeywords asciiToLowerCase (emailTextOf asciiToLowerCase email))
                       (emailTextOf asciiToLowerCase email) t))"
proof -
  have add: "fst (scoreKeyword lc ew et st k) =
     fst st + (if lc k \<in> set ew then 2 else 0)
            + (if stringIncludes et (lc k) then 1 else 0)"
    by (simp add: scoreKeyword_def Let_def)
  have three: "fst (scoreKeyword f (extractKeywords f (emailTextOf f email)) (emailTextOf f email) st k)
      = fst st + 3"
    if "f (emailTextOf f email) = emailTextOf f email"
      and "f k \<in> set (extractKeywords f (emailTextOf f email))" for f
  proof -
    from that(2) have "stringIncludes (f (emailTextOf f email)) (f k)"
      by (rule extractKeywords_substring)
    then have "stringIncludes (emailTextOf f email) (f k)" by (simp add: that(1))
    with that(2) show ?thesis by (rule scoreKeyword_both)
  qed
  have total: "3 \<le> fst (foldl (scoreKeyword f (extractKeywords f (emailTextOf f email)) (emailTextOf f email))
                 (0, []) (keywordList t))
      \<and> 3 \<le> score (scoreCandidate f (extractKeywords f (emailTextOf f email)) (emailTextOf f email) t)"
    if "f (emailTextOf f email) = emailTextOf f email"
      and "k \<in> set (keywordList t)" and "f k \<in> set (extractKeywords f (emailTextOf f email))" for f
  proof -
    let ?et = "emailTextOf f email"
    let ?ew = "extractKeywords f ?et"
    from that(3) have "stringIncludes (f ?et) (f k)" by (rule extractKeywords_substring)
    then have sub: "stringIncludes ?et (f k)" by (simp add: that(1))
    have "fst (0::rat, []::jsstring list) + 3 \<le> fst (foldl (scoreKeyword f ?ew ?et) (0, []) (keywordList t))"
      using that(2,3) sub by (rule foldl_scoreKeyword_both)
    then have kw: "3 \<le> fst (foldl (scoreKeyword f ?ew ?et) (0, []) (keywordList t))" by simp
    also have "\<dots> \<le> fst (calculateScore f t ?ew ?et)" by (rule calculateScore_ge_keywords)
    finally have "3 \<le> score (scoreCandidate f ?ew ?et t)" by (simp add: scoreCandidate_def Let_def)
    with kw show ?thesis by simp
  qed
  have idem: "asciiToLowerCase (emailTextOf asciiToLowerCase email) = emailTextOf asciiToLowerCase email"
    by (simp add: emailTextOf_def asciiToLowerCase_idem)
  from add three [of lc] total [of lc] three [of asciiToLowerCase, OF idem]
    total [of asciiToLowerCase, OF idem]
  show ?thesis by blast
qed

text \<open>
  The email body \<open>I want a refund for my order\<close> and the template with the keywords
  \<open>refund\<close> and its Chinese translation.
\<close>

theorem keyword_bonuses_add_witness:
  "js ''refund'' \<in> set (keywordList refundTemplate)
   \<and> asciiToLowerCase (emailTextOf asciiToLowerCase tokenEmail) = emailTextOf asciiToLowerCase tokenEmail
   \<and> asciiToLowerCase (js ''refund'') \<in> set (extractKeywords asciiToLowerCase (emailTextOf asciiToLowerCase tokenEmail))
   \<and> fst (scoreKeyword asciiToLowerCase (extractKeywords asciiToLowerCase (emailTextOf asciiToLowerCase tokenEmail))
          (emailTextOf asciiToLowerCase tokenEmail) (0, []) (js ''refund'')) = 3
   \<and> 3 \<le> fst (foldl (scoreKeyword asciiToLowerCase (extractKeywords asciiToLowerCase (emailTextOf asciiToLowerCase tokenEmail))
                   (emailTextOf asciiToLowerCase tokenEmail))
            (0, []) (keywordList refundTemplate))
   \<and> 3 \<le> score (scoreCandidate asciiToLowerCase (extractKeywords asciiToLowerCase (emailTextOf asciiToLowerCase tokenEmail))
               (emailTextOf asciiToLowerCase tokenEmail) refundTemplate)"
proof -
  have h1: "js ''refund'' \<in> set (keywordList refundTemplate)" by code_simp
  have h2: "asciiToLowerCase (js ''refund'')
      \<in> set (extractKeywords asciiToLowerCase (emailTextOf asciiToLowerCase tokenEmail))" by code_simp
  have h3: "asciiToLowerCase (emailTextOf asciiToLowerCase tokenEmail) = emailTextOf asciiToLowerCase tokenEmail"
    by code_simp
  note inst = keyword_bonuses_add [where lc = asciiToLowerCase and st = "(0::rat, [])"
      and k = "js ''refund''" and email = tokenEmail and t = refundTemplate]
  have three: "fst (scoreKeyword asciiToLowerCase
        (extractKeywords asciiToLowerCase (emailTextOf asciiToLowerCase tokenEmail))
        (emailTextOf asciiToLowerCase tokenEmail) (0, []) (js ''refund'')) = fst (0::rat, []::jsstring list) + 3"
    using inst h2 h3 by blast
  have total: "3 \<le> fst (foldl (scoreKeyword asciiToLowerCase
                   (extractKeywords asciiToLowerCase (emailTextOf asciiToLowerCase tokenEmail))
                   (emailTextOf asciiToLowerCase tokenEmail))
            (0, []) (keywordList refundTemplate))
      \<and> 3 \<le> score (scoreCandidate asciiToLowerCase
               (extractKeywords asciiToLowerCase (emailTextOf asciiToLowerCase tokenEmail))
               (emailTextOf asciiToLowerCase tokenEmail) refundTemplate)"
    using inst h1 h2 h3 by blast
  from h1 h2 h3 three total show ?thesis by simp
qed

subsection \<open>The range of the score\<close>



subsection \<open>The choice of the candidates\<close>

text \<open>
  Claim C7: when the requested category is a key of the category index, the candidates are
  the templates of exactly that category, in corpus order, whatever the other keys and the
  lowercasing function are: the result is fixed before the loop over similar categories or
  the whole corpus could be used.
\<close>

theorem getCandidates_exact_category:
  assumes "c \<in> set (getCategories (newTemplateRetriever ts))"
  shows "getCandidates lc (newTemplateRetriever ts) c = getTemplatesByCategory (newTemplateRetriever ts) c
       \<and> getCandidates lc (newTemplateRetriever ts) c = filter (\<lambda>t. category t = c) ts"
proof -
  from assms have c: "c \<in> category ` set ts"
    by (simp add: getCategories_def newTemplateRetriever_def buildIndexes_keys)
  then have "getTemplatesByCategory (newTemplateRetriever ts) c = filter (\<lambda>t. category t = c) ts"
    by (simp add: getTemplatesByCategory_def newTemplateRetriever_def buildIndexes_map_of)
  with getCandidates_exact [OF c] show ?thesis by simp
qed

text \<open>
  In the example corpus the first key of the index, \<open>Refund policy\<close>, is similar to the
  request \<open>Refund\<close>, and still the templates of the category \<open>Refund\<close> are returned.
\<close>

theorem getCandidates_exact_category_witness:
  "js ''Refund'' \<in> set (getCategories (newTemplateRetriever exampleCorpus))
   \<and> hd (getCategories (newTemplateRetriever exampleCorpus)) = js ''Refund policy''
   \<and> similarCategory asciiToLowerCase (asciiToLowerCase (js ''Refund'')) (js ''Refund policy'')
   \<and> getCandidates asciiToLowerCase (newTemplateRetriever exampleCorpus) (js ''Refund'')
       = [refundTemplate, cancelTemplate, orderTemplate]"
proof -
  have h: "js ''Refund'' \<in> set (getCategories (newTemplateRetriever exampleCorpus))" by code_simp
  have s: "hd (getCategories (newTemplateRetriever exampleCorpus)) = js ''Refund policy''
     \<and> similarCategory asciiToLowerCase (asciiToLowerCase (js ''Refund'')) (js ''Refund policy'')" by code_simp
  have f: "filter (\<lambda>t. category t = js ''Refund'') exampleCorpus = [refundTemplate, cancelTemplate, orderTemplate]"
    by code_simp
  have "getCandidates asciiToLowerCase (newTemplateRetriever exampleCorpus) (js ''Refund'')
      = filter (\<lambda>t. category t = js ''Refund'') exampleCorpus"
    using getCandidates_exact_category [OF h] by (rule conjunct2)
  with h s f show ?thesis by simp
qed

text \<open>
  Claim C8: when the requested category is no key of the index, and no key contains it or
  is contained in it after both are lowercased, by whatever function lowercases, the
  candidates are the whole corpus, so \<open>findBestMatches\<close> ranks every template of the corpus,
  and the candidates are empty only when the corpus is.
\<close>

theorem getCandidates_whole_corpus:
  assumes "c \<notin> set (getCategories (newTemplateRetriever ts))"
    and "\<forall>key \<in> set (getCategories (newTemplateRetriever ts)).
           \<not> stringIncludes (lc key) (lc c) \<and> \<not> stringIncludes (lc c) (lc key)"
  shows "getCandidates lc (newTemplateRetriever ts) c = ts
       \<and> findBestMatches lc (newTemplateRetriever ts) email c limit =
           slice0 (sortByScore (filter (\<lambda>m. score m > 0)
             (map (scoreCandidate lc (extractKeywords lc (emailTextOf lc email)) (emailTextOf lc email)) ts))) limit
       \<and> (getCandidates lc (newTemplateRetriever ts) c = [] \<longleftrightarrow> ts = [])"
proof -
  have keys: "set (getCategories (newTemplateRetriever ts)) = category ` set ts"
    by (simp add: getCategories_def newTemplateRetriever_def buildIndexes_keys)
  from assms(1) have "c \<notin> category ` set ts" by (simp add: keys)
  moreover from assms(2) have "\<forall>key \<in> category ` set ts. \<not> similarCategory lc (lc c) key"
    unfolding keys by (simp add: similarCategory_def)
  ultimately have "getCandidates lc (newTemplateRetriever ts) c = ts" by (rule getCandidates_unscoped)
  then show ?thesis by (simp add: findBestMatches_def Let_def)
qed

text \<open>The category \<open>Shipping\<close> is unknown to the example corpus.\<close>

theorem getCandidates_whole_corpus_witness:
  "js ''Shipping'' \<notin> set (getCategories (newTemplateRetriever exampleCorpus))
   \<and> list_all (\<lambda>key. \<not> stringIncludes (asciiToLowerCase key) (asciiToLowerCase (js ''Shipping''))
                   \<and> \<not> stringIncludes (asciiToLowerCase (js ''Shipping'')) (asciiToLowerCase key))
        (getCategories (newTemplateRetriever exampleCorpus))
   \<and> getCategories (newTemplateRetriever exampleCorpus) = [js ''Refund policy'', js ''Refund'']
   \<and> getCandidates asciiToLowerCase (newTemplateRetriever exampleCorpus) (js ''Shipping'') = exampleCorpus
   \<and> map (\<lambda>m. tid (template m)) (findBestMatches asciiToLowerCase (newTemplateRetriever exampleCorpus) exampleEmail (js ''Shipping'') 10)
       = [js ''refund_003'', js ''refund_001'', js ''refund_002'']"
proof -
  have h1: "js ''Shipping'' \<notin> set (getCategories (newTemplateRetriever exampleCorpus))" by code_simp
  have h2: "list_all (\<lambda>key. \<not> stringIncludes (asciiToLowerCase key) (asciiToLowerCase (js ''Shipping''))
                   \<and> \<not> stringIncludes (asciiToLowerCase (js ''Shipping'')) (asciiToLowerCase key))
        (getCategories (newTemplateRetriever exampleCorpus))" by code_simp
  have h3: "getCategories (newTemplateRetriever exampleCorpus) = [js ''Refund policy'', js ''Refund'']"
    by code_simp
  have h4: "map (\<lambda>m. tid (template m)) (findBestMatches asciiToLowerCase (newTemplateRetriever exampleCorpus) exampleEmail (js ''Shipping'') 10)
       = [js ''refund_003'', js ''refund_001'', js ''refund_002'']" by code_simp
  from h2 have h2': "\<forall>key \<in> set (getCategories (newTemplateRetriever exampleCorpus)).
           \<not> stringIncludes (asciiToLowerCase key) (asciiToLowerCase (js ''Shipping''))
         \<and> \<not> stringIncludes (asciiToLowerCase (js ''Shipping'')) (asciiToLowerCase key)"
    unfolding list_all_iff .
  from h1 h2 h3 h4 getCandidates_whole_corpus [OF h1 h2', where email = exampleEmail and limit = 10]
  show ?thesis by simp
qed

text \<open>
  Accented letters: with a lowercasing function that maps them, the capitalised request
  finds the category by the fallback loop, and a keyword scores in a capitalised text.
\<close>

lemma getCandidates_accented_example:
  "getCandidates latin1ToLowerCase (newTemplateRetriever [autreTemplate, donneesTemplate])
     (js ''DONN'' @ [201] @ js ''ES'') = [donneesTemplate]"
  by code_simp

lemma calculateScore_accented_example:
  "fst (calculateScore latin1ToLowerCase reductionTemplate
         (extractKeywords latin1ToLowerCase (latin1ToLowerCase (js ''R'' @ [201] @ js ''DUCTION'')))
         (latin1ToLowerCase (js ''R'' @ [201] @ js ''DUCTION''))) = 1"
  by code_simp

section \<open>Properties of the service\<close>

subsection \<open>Retries\<close>

lemma retries_left_iff: "retries_left retries attempt r \<longleftrightarrow> attempt < retries \<and> timedOut r"
  by (simp add: retries_left_def timedOut_def split: outcome.splits)

lemma chatLoop_step:
  "attempt \<le> retries \<Longrightarrow>
   chatLoop net retries attempt w =
     (if attempt < retries \<and> timedOut (tryRequest (net (requests w)))
      then chatLoop net retries (attempt + 1) (waitBeforeRetry (sendRequest (net (requests w)) w))
      else (tryRequest (net (requests w)), sendRequest (net (requests w)) w))"
  by (subst chatLoop.simps) (simp add: Let_def retries_left_iff)

lemma requests_retry: "requests (waitBeforeRetry (sendRequest a w)) = requests w + 1"
  by (simp add: waitBeforeRetry_def sendRequest_def)

text \<open>The three requests a call can send, and the states after sending them.\<close>

lemma chat_cases:
  "chat net w =
     (let a0 = net (requests w); a1 = net (requests w + 1); a2 = net (requests w + 2);
          w0 = sendRequest a0 w;
          w1 = sendRequest a1 (waitBeforeRetry w0);
          w2 = sendRequest a2 (waitBeforeRetry w1)
      in if \<not> timedOut (tryRequest a0) then (tryRequest a0, w0)
         else if \<not> timedOut (tryRequest a1) then (tryRequest a1, w1)
         else (tryRequest a2, w2))"
proof -
  have s2: "chatLoop net 2 2 v = (tryRequest (net (requests v)), sendRequest (net (requests v)) v)" for v
    by (simp add: chatLoop_step)
  have s1: "chatLoop net 2 1 v =
      (if timedOut (tryRequest (net (requests v)))
       then chatLoop net 2 2 (waitBeforeRetry (sendRequest (net (requests v)) v))
       else (tryRequest (net (requests v)), sendRequest (net (requests v)) v))" for v
    using chatLoop_step [of 1 2 net v] by simp
  have s0: "chatLoop net 2 0 v =
      (if timedOut (tryRequest (net (requests v)))
       then chatLoop net 2 1 (waitBeforeRetry (sendRequest (net (requests v)) v))
       else (tryRequest (net (requests v)), sendRequest (net (requests v)) v))" for v
    using chatLoop_step [of 0 2 net v] by simp
  show ?thesis
    by (simp add: chat_def s0 s1 s2 requests_retry add.assoc Let_def)
qed

text \<open>Which requests end in a timeout error, and which never end.\<close>

lemma timedOut_tryRequest:
  "timedOut (tryRequest Silent)"
  "timedOut (tryRequest (Rejects ms n)) \<longleftrightarrow>
     abortDelay \<le> ms \<or> n = ''AbortError'' \<or> n = ''TimeoutError''"
  "timedOut (tryRequest (Responds ms b)) \<longleftrightarrow>
     abortDelay \<le> ms \<or> b = ReadRejects ''AbortError'' \<or> b = ReadRejects ''TimeoutError''"
  by (cases b; auto simp: timedOut_def isTimeout_def)+

lemma pending_tryRequest:
  "tryRequest a = Pending \<longleftrightarrow> (\<exists>ms. a = Responds ms Stalls \<and> ms < abortDelay)"
  by (cases a rule: tryRequest.cases; cases "case a of Responds ms b \<Rightarrow> b | _ \<Rightarrow> NoChoices")
     (auto split: if_splits)

text \<open>
  The retry policy of \<open>chat\<close>: it sends between one and three requests, each after arming
  the abort timer, each retry after a wait of 2000 milliseconds. Every request before the
  last one ended in a timeout error, so nothing else is retried; the outcome is that of the
  last request; and a timeout error is the outcome only when both retries have been used.
\<close>

lemma chat_retry_policy:
  "\<exists>n. fst (chat net w) = tryRequest (net (requests w + n))
       \<and> requests (snd (chat net w)) = requests w + n + 1
       \<and> effects (snd (chat net w)) =
           effects w @ requestEffects (net (requests w))
             @ concat (map (\<lambda>i. Wait 2000 # requestEffects (net (requests w + i))) [1..<Suc n])
       \<and> n \<le> 2
       \<and> (\<forall>i < n. timedOut (tryRequest (net (requests w + i))))
       \<and> (timedOut (tryRequest (net (requests w + n))) \<longrightarrow> n = 2)"
proof -
  let ?a = "\<lambda>i. tryRequest (net (requests w + i))"
  consider (first) "\<not> timedOut (?a 0)"
    | (second) "timedOut (?a 0)" "\<not> timedOut (?a 1)"
    | (third) "timedOut (?a 0)" "timedOut (?a 1)"
    by blast
  then show ?thesis
  proof cases
    case first
    then show ?thesis
      by (intro exI [of _ 0]) (simp add: chat_cases Let_def sendRequest_def)
  next
    case second
    then show ?thesis
      by (intro exI [of _ 1]) (simp add: chat_cases Let_def sendRequest_def waitBeforeRetry_def)
  next
    case third
    then show ?thesis
      by (intro exI [of _ 2])
         (simp add: chat_cases Let_def sendRequest_def waitBeforeRetry_def numeral_2_eq_2
            less_Suc_eq upt_rec)
  qed
qed

lemma chat_pending:
  assumes "net (requests w) = Responds ms Stalls" and "ms < abortDelay"
  shows "chat net w =
           (Pending, \<lparr>requests = requests w + 1,
                      effects = effects w @ [AbortTimer abortDelay, Request, ClearTimer]\<rparr>)"
  using assms by (simp add: chat_cases Let_def timedOut_def sendRequest_def)

text \<open>
  Claim C9 fails on the code in its first part. The abort timer, armed with 90000
  milliseconds, is cleared as soon as \<open>fetch\<close> resolves with the response headers; the body
  is read afterwards with no timer running. When the headers arrive after 120 milliseconds
  and the body never ends, \<open>chat\<close> has sent one request, cleared its timer, and never
  settles: no timeout error, no retry, no result. A request that gets no answer at all is
  aborted by the timer and retried twice, and then the timeout error is thrown.
\<close>

theorem chat_unbounded_body_read:
  "chat (netOf [Responds 120 Stalls]) world0
     = (Pending, \<lparr>requests = 1, effects = [AbortTimer 90000, Request, ClearTimer]\<rparr>)
   \<and> chat (netOf [Silent, Silent, Silent]) world0
     = (Throws (Rejected ''AbortError''),
        \<lparr>requests = 3, effects = [AbortTimer 90000, Request, Wait 2000, AbortTimer 90000, Request,
           Wait 2000, AbortTimer 90000, Request]\<rparr>)"
  by code_simp

text \<open>
  A timeout followed by a status 500 ends with the status error after one retry, and the
  third answer is never asked for.
\<close>

lemma chat_retry_example:
  "chat (netOf [Silent, Responds 300 (NotOk 500 (js ''overloaded'')), Responds 40 (Content (js ''late''))]) world0
     = (Throws (ApiError 500 (js ''overloaded'')),
        \<lparr>requests = 2, effects = [AbortTimer 90000, Request, Wait 2000, AbortTimer 90000, Request,
           ClearTimer]\<rparr>)"
  by code_simp

subsection \<open>The analysis of an email\<close>

text \<open>
  Claim C3: when the reply of the service, cleaned of its code fence, is rejected by
  \<open>JSON.parse\<close>, \<open>analyzeEmail\<close> returns the default analysis and throws nothing: the
  email is important, its category is the follow-up category, and the reasoning is not empty.
\<close>

theorem analyzeEmail_parse_failure:
  assumes "chat net w = (Returns reply, w1)" and "JSON_parse (cleanResponse reply) = None"
  shows "analyzeEmail JSON_parse net w = (Returns defaultAnalysis, w1)
       \<and> ar_isImportant defaultAnalysis
       \<and> ar_category defaultAnalysis = [20449, 24687, 25910, 38598, 19982, 36319, 36827]
       \<and> ar_reasoning defaultAnalysis \<noteq> []"
  using assms by (simp add: analyzeEmail_def defaultAnalysis_def js_def)

text \<open>A fenced reply that is prose and no JSON.\<close>

theorem analyzeEmail_parse_failure_witness:
  "chat (netOf [Responds 120 (Content ([96, 96, 96] @ js ''json Sorry, I cannot help. '' @ [96, 96, 96]))]) world0
     = (Returns ([96, 96, 96] @ js ''json Sorry, I cannot help. '' @ [96, 96, 96]),
        \<lparr>requests = 1, effects = [AbortTimer 90000, Request, ClearTimer]\<rparr>)
   \<and> cleanResponse ([96, 96, 96] @ js ''json Sorry, I cannot help. '' @ [96, 96, 96]) = js ''Sorry, I cannot help.''
   \<and> strictParse (cleanResponse ([96, 96, 96] @ js ''json Sorry, I cannot help. '' @ [96, 96, 96])) = None
   \<and> analyzeEmail strictParse
        (netOf [Responds 120 (Content ([96, 96, 96] @ js ''json Sorry, I cannot help. '' @ [96, 96, 96]))]) world0
     = (Returns defaultAnalysis, \<lparr>requests = 1, effects = [AbortTimer 90000, Request, ClearTimer]\<rparr>)"
proof -
  let ?reply = "[96, 96, 96] @ js ''json Sorry, I cannot help. '' @ [96, 96, 96]"
  have h1: "chat (netOf [Responds 120 (Content ?reply)]) world0
     = (Returns ?reply, \<lparr>requests = 1, effects = [AbortTimer 90000, Request, ClearTimer]\<rparr>)" by code_simp
  have h2: "strictParse (cleanResponse ?reply) = None" by code_simp
  have h3: "cleanResponse ?reply = js ''Sorry, I cannot help.''" by code_simp
  from h1 h2 h3 analyzeEmail_parse_failure [where JSON_parse = strictParse, OF h1 h2]
  show ?thesis by simp
qed

subsection \<open>Selection and response\<close>

lemma findBestMatches_sorted:
  "sorted_wrt (\<lambda>a b. score b \<le> score a) (findBestMatches lc r email c limit)"
proof -
  let ?ms = "sortByScore (filter (\<lambda>m. 0 < score m)
     (map (scoreCandidate lc (extractKeywords lc (emailTextOf lc email)) (emailTextOf lc email))
        (getCandidates lc r c)))"
  obtain k where "slice0 ?ms limit = take k ?ms" using slice0_take by blast
  then have "findBestMatches lc r email c limit = take k ?ms"
    by (simp add: findBestMatches_def Let_def)
  then show ?thesis by (simp add: sorted_wrt_take sortByScore_sorted)
qed

lemma hd_findBestMatches_max:
  assumes "m \<in> set (findBestMatches lc r email c limit)"
  shows "score m \<le> score (hd (findBestMatches lc r email c limit))"
proof (cases "findBestMatches lc r email c limit")
  case Nil
  with assms show ?thesis by simp
next
  case (Cons x xs)
  with findBestMatches_sorted [where lc = lc and r = r and email = email and c = c and limit = limit]
    assms show ?thesis by auto
qed

lemma selectTemplateWithReasoning_parsed:
  assumes "findBestMatches lc r email c 10 \<noteq> []"
    and "chat net w = (Returns reply, w1)" and "JSON_parse (cleanResponse reply) = Some p"
  shows "selectTemplateWithReasoning lc JSON_parse net r email c w
           = (Returns (decide (findBestMatches lc r email c 10) p), w1)"
  using assms by (simp add: selectTemplateWithReasoning_def Let_def)

lemma selectTemplateWithReasoning_empty:
  assumes "findBestMatches lc r email c 10 = []"
  shows "selectTemplateWithReasoning lc JSON_parse net r email c w = (Returns None, w)"
  using assms by (simp add: selectTemplateWithReasoning_def Let_def)

lemma selectTemplateWithReasoning_unparsed:
  assumes "findBestMatches lc r email c 10 \<noteq> []"
    and "chat net w = (Returns reply, w1)" and "JSON_parse (cleanResponse reply) = None"
  shows "selectTemplateWithReasoning lc JSON_parse net r email c w
           = (Returns (Some (fallbackSelection (findBestMatches lc r email c 10))), w1)"
  using assms by (simp add: selectTemplateWithReasoning_def Let_def)

lemma generateResponse_templates:
  assumes "useTemplates" and "h_category a = Some c" and "c \<noteq> []"
  shows "generateResponse lc JSON_parse net (Some r) email a useTemplates w =
     (case selectTemplateWithReasoning lc JSON_parse net r email c w of
        (Returns (Some sel), w1) \<Rightarrow> respondPersonalized net (orElse (h_language a) (js ''en'')) [] sel w1
      | (Returns None, w1) \<Rightarrow>
          (Returns (respondManualReview (orElse (h_language a) (js ''en'')) c email a), w1)
      | (Throws error, w1) \<Rightarrow> (Throws error, w1)
      | (Pending, w1) \<Rightarrow> (Pending, w1))"
proof -
  from assms have "orElse (h_category a) [] \<noteq> []" by (simp add: orElse_def)
  with assms show ?thesis by (simp add: generateResponse_def Let_def)
qed

lemma generateResponse_no_selection:
  assumes "useTemplates" and "h_category a = Some c" and "c \<noteq> []"
    and "fst (selectTemplateWithReasoning lc JSON_parse net r email c w) = Returns None"
  shows "fst (generateResponse lc JSON_parse net (Some r) email a useTemplates w)
           = Returns (respondManualReview (orElse (h_language a) (js ''en'')) c email a)"
  using assms(4) unfolding generateResponse_templates [OF assms(1-3)]
  by (cases "selectTemplateWithReasoning lc JSON_parse net r email c w") simp

lemma generateResponse_free_form:
  assumes "\<not> (useTemplates \<and> tr \<noteq> None \<and> orElse (h_category a) [] \<noteq> [])"
  shows "generateResponse lc JSON_parse net tr email a useTemplates w =
           respondFreeForm net (orElse (h_language a) (js ''en'')) [] w"
  unfolding generateResponse_def Let_def using assms by (simp only: if_False)

lemma respondFreeForm_unmatched:
  "respondFreeForm net lang [] w = (Returns res, w') \<Longrightarrow> rr_matchedTemplates res = None"
  by (auto simp: respondFreeForm_def split: prod.splits outcome.splits)

lemma respondPersonalized_result:
  assumes "respondPersonalized net lang [] sel w1 = (Returns res, w')"
  shows "\<exists>reply. chat net w1 = (Returns reply, w') \<and>
           res = \<lparr>rr_response = trim reply, rr_language = lang,
                  rr_matchedTemplates = Some [\<lparr>mt_id = tid (sel_template sel),
                     mt_scenario = scenario (sel_template sel), mt_score = sel_score sel\<rparr>]\<rparr>"
  using assms
  by (auto simp: respondPersonalized_def personalizeTemplate_def Let_def
      split: prod.splits outcome.splits)

lemma decide_null: "selectedIndex d = Null \<Longrightarrow> decide ms (Parsed d) = None"
  by (simp add: decide_def)


lemma selection_none:
  assumes "chat net w = (Returns reply, w1)" and "JSON_parse (cleanResponse reply) = Some (Parsed d)"
    and "decide (findBestMatches lc r email c 10) (Parsed d) = None"
  shows "fst (selectTemplateWithReasoning lc JSON_parse net r email c w) = Returns None"
proof (cases "findBestMatches lc r email c 10 = []")
  case True
  then show ?thesis by (simp add: selectTemplateWithReasoning_empty)
next
  case False
  from selectTemplateWithReasoning_parsed [where JSON_parse = JSON_parse, OF False assms(1,2)] assms(3)
  show ?thesis by simp
qed

text \<open>The manual-review result, with the notice written out.\<close>

lemma respondManualReview_text:
  "respondManualReview (orElse (h_language a) (js ''en'')) c email a =
     \<lparr>rr_response =
        [55357, 56541, 32, 38656, 35201, 20154, 24037, 23457, 26680, 10, 10,
         35813, 37038, 20214, 24050, 34987, 20998, 26512, 20026, 34]
        @ c
        @ [34, 31867, 21035, 65292, 24847, 22270, 20026, 34]
        @ (case h_intent a of Some intent \<Rightarrow> intent | None \<Rightarrow> js ''undefined'')
        @ [34, 65292, 20294, 26410, 25214, 21040, 21512, 36866, 30340, 39044, 35774, 27169,
           26495, 12290, 10, 10, 37038, 20214, 20449, 24687, 65306, 10, 45, 32, 21457, 20214,
           20154, 58, 32]
        @ from_address email
        @ [10, 45, 32, 20027, 39064, 58, 32]
        @ subject email
        @ [10, 45, 32, 20851, 38190, 38382, 39064, 58, 32]
        @ (case h_keywords a of
             Some ks \<Rightarrow> if join (js '', '') ks = [] then [26080] else join (js '', '') ks
           | None \<Rightarrow> [26080])
        @ [10, 10, 35831, 20154, 24037, 23457, 26680, 24182, 25552, 20379, 36866, 24403, 30340,
           22238, 22797, 12290],
      rr_language =
        (case h_language a of Some l \<Rightarrow> if l = [] then js ''en'' else l | None \<Rightarrow> js ''en''),
      rr_matchedTemplates = None\<rparr>"
  by (simp add: respondManualReview_def manualReviewMessage_def interpolate_def keywordsText_def
      orElse_def Let_def split: option.splits)

text \<open>
  Claim C2: with templates enabled, a retriever and a category, a parsed reply of the
  selection prompt whose \<open>selectedIndex\<close> is \<open>null\<close> makes \<open>generateResponse\<close> return the
  manual-review notice with no matched templates. The notice is written out here: its
  fixed Chinese text, by code units, around the category, the intent, the sender, the
  subject and the keywords, and nothing that the service replied. And whenever a result
  carries matched templates, it is the personalized outcome: a template was selected, and
  the response is the trimmed reply of the personalization request, with exactly that
  template listed.
\<close>

theorem generateResponse_null_selection:
  "(useTemplates \<and> h_category a = Some c \<and> c \<noteq> [] \<and> chat net w = (Returns reply, w1)
      \<and> JSON_parse (cleanResponse reply) = Some (Parsed d) \<and> selectedIndex d = Null
    \<longrightarrow> fst (generateResponse lc JSON_parse net (Some r) email a useTemplates w)
          = Returns
             \<lparr>rr_response =
                [55357, 56541, 32, 38656, 35201, 20154, 24037, 23457, 26680, 10, 10,
                 35813, 37038, 20214, 24050, 34987, 20998, 26512, 20026, 34]
                @ c
                @ [34, 31867, 21035, 65292, 24847, 22270, 20026, 34]
                @ (case h_intent a of Some intent \<Rightarrow> intent | None \<Rightarrow> js ''undefined'')
                @ [34, 65292, 20294, 26410, 25214, 21040, 21512, 36866, 30340, 39044, 35774,
                   27169, 26495, 12290, 10, 10, 37038, 20214, 20449, 24687, 65306, 10, 45, 32,
                   21457, 20214, 20154, 58, 32]
                @ from_address email
                @ [10, 45, 32, 20027, 39064, 58, 32]
                @ subject email
                @ [10, 45, 32, 20851, 38190, 38382, 39064, 58, 32]
                @ (case h_keywords a of
                     Some ks \<Rightarrow> if join (js '', '') ks = [] then [26080] else join (js '', '') ks
                   | None \<Rightarrow> [26080])
                @ [10, 10, 35831, 20154, 24037, 23457, 26680, 24182, 25552, 20379, 36866, 24403,
                   30340, 22238, 22797, 12290],
              rr_language =
                (case h_language a of Some l \<Rightarrow> if l = [] then js ''en'' else l | None \<Rightarrow> js ''en''),
              rr_matchedTemplates = None\<rparr>)
   \<and> (generateResponse lc JSON_parse net tr email a useTemplates w = (Returns res, w')
        \<and> rr_matchedTemplates res \<noteq> None
    \<longrightarrow> (\<exists>r c sel w1 reply.
           useTemplates \<and> tr = Some r \<and> h_category a = Some c \<and> c \<noteq> []
         \<and> selectTemplateWithReasoning lc JSON_parse net r email c w = (Returns (Some sel), w1)
         \<and> chat net w1 = (Returns reply, w')
         \<and> res = \<lparr>rr_response = trim reply, rr_language = orElse (h_language a) (js ''en''),
                   rr_matchedTemplates = Some [\<lparr>mt_id = tid (sel_template sel),
                      mt_scenario = scenario (sel_template sel), mt_score = sel_score sel\<rparr>]\<rparr>))"
proof (intro conjI impI)
  assume h: "useTemplates \<and> h_category a = Some c \<and> c \<noteq> [] \<and> chat net w = (Returns reply, w1)
      \<and> JSON_parse (cleanResponse reply) = Some (Parsed d) \<and> selectedIndex d = Null"
  then have "decide (findBestMatches lc r email c 10) (Parsed d) = None" by (simp add: decide_null)
  with h have "fst (selectTemplateWithReasoning lc JSON_parse net r email c w) = Returns None"
    using selection_none [where JSON_parse = JSON_parse and net = net and w = w and reply = reply
        and ?w1.0 = w1 and d = d and r = r and email = email and c = c and lc = lc]
    by simp
  with h have "fst (generateResponse lc JSON_parse net (Some r) email a useTemplates w)
      = Returns (respondManualReview (orElse (h_language a) (js ''en'')) c email a)"
    using generateResponse_no_selection [where JSON_parse = JSON_parse and net = net and w = w
        and r = r and email = email and c = c and lc = lc and a = a and useTemplates = useTemplates]
    by simp
  then show "fst (generateResponse lc JSON_parse net (Some r) email a useTemplates w)
          = Returns
             \<lparr>rr_response =
                [55357, 56541, 32, 38656, 35201, 20154, 24037, 23457, 26680, 10, 10,
                 35813, 37038, 20214, 24050, 34987, 20998, 26512, 20026, 34]
                @ c
                @ [34, 31867, 21035, 65292, 24847, 22270, 20026, 34]
                @ (case h_intent a of Some intent \<Rightarrow> intent | None \<Rightarrow> js ''undefined'')
                @ [34, 65292, 20294, 26410, 25214, 21040, 21512, 36866, 30340, 39044, 35774,
                   27169, 26495, 12290, 10, 10, 37038, 20214, 20449, 24687, 65306, 10, 45, 32,
                   21457, 20214, 20154, 58, 32]
                @ from_address email
                @ [10, 45, 32, 20027, 39064, 58, 32]
                @ subject email
                @ [10, 45, 32, 20851, 38190, 38382, 39064, 58, 32]
                @ (case h_keywords a of
                     Some ks \<Rightarrow> if join (js '', '') ks = [] then [26080] else join (js '', '') ks
                   | None \<Rightarrow> [26080])
                @ [10, 10, 35831, 20154, 24037, 23457, 26680, 24182, 25552, 20379, 36866, 24403,
                   30340, 22238, 22797, 12290],
              rr_language =
                (case h_language a of Some l \<Rightarrow> if l = [] then js ''en'' else l | None \<Rightarrow> js ''en''),
              rr_matchedTemplates = None\<rparr>"
    by (simp only: respondManualReview_text)
next
  assume g: "generateResponse lc JSON_parse net tr email a useTemplates w = (Returns res, w')
        \<and> rr_matchedTemplates res \<noteq> None"
  let ?lang = "orElse (h_language a) (js ''en'')"
  have cond: "useTemplates \<and> tr \<noteq> None \<and> orElse (h_category a) [] \<noteq> []"
  proof (rule ccontr)
    assume "\<not> ?thesis"
    then have "generateResponse lc JSON_parse net tr email a useTemplates w = respondFreeForm net ?lang [] w"
      by (rule generateResponse_free_form)
    with g have "rr_matchedTemplates res = None" by (auto dest: respondFreeForm_unmatched)
    with g show False by simp
  qed
  then obtain r c where rc: "tr = Some r" "h_category a = Some c" "c \<noteq> []"
    by (auto simp: orElse_def split: option.splits if_splits)
  from cond have ut: "useTemplates" by simp
  obtain s w1 where sw: "selectTemplateWithReasoning lc JSON_parse net r email c w = (s, w1)"
    by (cases "selectTemplateWithReasoning lc JSON_parse net r email c w")
  have gen: "generateResponse lc JSON_parse net (Some r) email a useTemplates w =
     (case s of
        Returns (Some sel) \<Rightarrow> respondPersonalized net ?lang [] sel w1
      | Returns None \<Rightarrow> (Returns (respondManualReview ?lang c email a), w1)
      | Throws error \<Rightarrow> (Throws error, w1)
      | Pending \<Rightarrow> (Pending, w1))"
    unfolding generateResponse_templates [OF ut rc(2,3)] sw
    by (simp split: option.splits outcome.splits)
  show "\<exists>r c sel w1 reply.
           useTemplates \<and> tr = Some r \<and> h_category a = Some c \<and> c \<noteq> []
         \<and> selectTemplateWithReasoning lc JSON_parse net r email c w = (Returns (Some sel), w1)
         \<and> chat net w1 = (Returns reply, w')
         \<and> res = \<lparr>rr_response = trim reply, rr_language = orElse (h_language a) (js ''en''),
                   rr_matchedTemplates = Some [\<lparr>mt_id = tid (sel_template sel),
                      mt_scenario = scenario (sel_template sel), mt_score = sel_score sel\<rparr>]\<rparr>"
  proof (cases s)
    case (Throws e)
    with gen g rc show ?thesis by simp
  next
    case Pending
    with gen g rc show ?thesis by simp
  next
    case (Returns so)
    show ?thesis
    proof (cases so)
      case None
      with Returns gen g rc have "rr_matchedTemplates res = None"
        by (auto simp: respondManualReview_def)
      with g show ?thesis by simp
    next
      case (Some sel)
      with Returns gen g rc have "respondPersonalized net ?lang [] sel w1 = (Returns res, w')" by simp
      then obtain reply where "chat net w1 = (Returns reply, w')"
        "res = \<lparr>rr_response = trim reply, rr_language = ?lang,
                  rr_matchedTemplates = Some [\<lparr>mt_id = tid (sel_template sel),
                     mt_scenario = scenario (sel_template sel), mt_score = sel_score sel\<rparr>]\<rparr>"
        by (blast dest: respondPersonalized_result)
      with ut rc sw Returns Some show ?thesis by blast
    qed
  qed
qed

text \<open>
  On the example corpus three templates match the email. The reply with \<open>null\<close> gives the
  manual-review notice, here with every code unit of its text; the reply selecting the
  second candidate gives the personalized outcome with that candidate listed.
\<close>

theorem generateResponse_null_selection_witness:
  "h_category exampleHints = Some (js ''Refund'') \<and> js ''Refund'' \<noteq> []
   \<and> length (findBestMatches asciiToLowerCase (newTemplateRetriever exampleCorpus) exampleEmail
        (js ''Refund'') 10) = 3
   \<and> chat (netOf [Responds 120 (Content nullReply)]) world0
        = (Returns nullReply, \<lparr>requests = 1, effects = [AbortTimer 90000, Request, ClearTimer]\<rparr>)
   \<and> exampleParse (cleanResponse nullReply) = Some (Parsed \<lparr>selectedIndex = Null, reasoning = None\<rparr>)
   \<and> fst (generateResponse asciiToLowerCase exampleParse (netOf [Responds 120 (Content nullReply)])
          (Some (newTemplateRetriever exampleCorpus)) exampleEmail exampleHints True world0)
        = Returns
           \<lparr>rr_response =
              [55357, 56541, 32, 38656, 35201, 20154, 24037, 23457, 26680, 10, 10, 35813, 37038,
               20214, 24050, 34987, 20998, 26512, 20026, 34, 82, 101, 102, 117, 110, 100, 34,
               31867, 21035, 65292, 24847, 22270, 20026, 34, 82, 69, 70, 85, 78, 68, 95, 82, 69,
               81, 85, 69, 83, 84, 34, 65292, 20294, 26410, 25214, 21040, 21512, 36866, 30340,
               39044, 35774, 27169, 26495, 12290, 10, 10, 37038, 20214, 20449, 24687, 65306, 10,
               45, 32, 21457, 20214, 20154, 58, 32, 97, 110, 110, 64, 101, 120, 97, 109, 112,
               108, 101, 46, 99, 111, 109, 10, 45, 32, 20027, 39064, 58, 32, 79, 114, 100, 101,
               114, 32, 49, 50, 51, 52, 10, 45, 32, 20851, 38190, 38382, 39064, 58, 32, 114, 101,
               102, 117, 110, 100, 44, 32, 111, 114, 100, 101, 114, 10, 10, 35831, 20154, 24037,
               23457, 26680, 24182, 25552, 20379, 36866, 24403, 30340, 22238, 22797, 12290],
            rr_language = [101, 110], rr_matchedTemplates = None\<rparr>
   \<and> fst (generateResponse asciiToLowerCase exampleParse
          (netOf [Responds 120 (Content oneReply),
                  Responds 120 (Content (js '' Dear Ann, we will refund you. ''))])
          (Some (newTemplateRetriever exampleCorpus)) exampleEmail exampleHints True world0)
        = Returns \<lparr>rr_response = js ''Dear Ann, we will refund you.'', rr_language = js ''en'',
               rr_matchedTemplates = Some [\<lparr>mt_id = js ''refund_001'', mt_scenario = js ''money back'',
                                             mt_score = 3\<rparr>]\<rparr>"
proof -
  let ?w1 = "\<lparr>requests = 1, effects = [AbortTimer 90000, Request, ClearTimer]\<rparr>"
  let ?d = "\<lparr>selectedIndex = Null, reasoning = None\<rparr>"
  let ?notice = "[55357, 56541, 32, 38656, 35201, 20154, 24037, 23457, 26680, 10, 10, 35813, 37038,
               20214, 24050, 34987, 20998, 26512, 20026, 34, 82, 101, 102, 117, 110, 100, 34,
               31867, 21035, 65292, 24847, 22270, 20026, 34, 82, 69, 70, 85, 78, 68, 95, 82, 69,
               81, 85, 69, 83, 84, 34, 65292, 20294, 26410, 25214, 21040, 21512, 36866, 30340,
               39044, 35774, 27169, 26495, 12290, 10, 10, 37038, 20214, 20449, 24687, 65306, 10,
               45, 32, 21457, 20214, 20154, 58, 32, 97, 110, 110, 64, 101, 120, 97, 109, 112,
               108, 101, 46, 99, 111, 109, 10, 45, 32, 20027, 39064, 58, 32, 79, 114, 100, 101,
               114, 32, 49, 50, 51, 52, 10, 45, 32, 20851, 38190, 38382, 39064, 58, 32, 114, 101,
               102, 117, 110, 100, 44, 32, 111, 114, 100, 101, 114, 10, 10, 35831, 20154, 24037,
               23457, 26680, 24182, 25552, 20379, 36866, 24403, 30340, 22238, 22797, 12290] :: jsstring"
  have h1: "h_category exampleHints = Some (js ''Refund'')" "js ''Refund'' \<noteq> []" by code_simp+
  have h2: "length (findBestMatches asciiToLowerCase (newTemplateRetriever exampleCorpus) exampleEmail
        (js ''Refund'') 10) = 3"
    by code_simp
  have h3: "chat (netOf [Responds 120 (Content nullReply)]) world0 = (Returns nullReply, ?w1)"
    by code_simp
  have h4: "exampleParse (cleanResponse nullReply) = Some (Parsed ?d)" by code_simp
  have h5: "selectedIndex ?d = Null" by simp
  have notice_eq: "[55357, 56541, 32, 38656, 35201, 20154, 24037, 23457, 26680, 10, 10,
                 35813, 37038, 20214, 24050, 34987, 20998, 26512, 20026, 34]
                @ js ''Refund''
                @ [34, 31867, 21035, 65292, 24847, 22270, 20026, 34]
                @ (case h_intent exampleHints of Some intent \<Rightarrow> intent | None \<Rightarrow> js ''undefined'')
                @ [34, 65292, 20294, 26410, 25214, 21040, 21512, 36866, 30340, 39044, 35774,
                   27169, 26495, 12290, 10, 10, 37038, 20214, 20449, 24687, 65306, 10, 45, 32,
                   21457, 20214, 20154, 58, 32]
                @ from_address exampleEmail
                @ [10, 45, 32, 20027, 39064, 58, 32]
                @ subject exampleEmail
                @ [10, 45, 32, 20851, 38190, 38382, 39064, 58, 32]
                @ (case h_keywords exampleHints of
                     Some ks \<Rightarrow> if join (js '', '') ks = [] then [26080] else join (js '', '') ks
                   | None \<Rightarrow> [26080])
                @ [10, 10, 35831, 20154, 24037, 23457, 26680, 24182, 25552, 20379, 36866, 24403,
                   30340, 22238, 22797, 12290] = ?notice"
    by code_simp
  have lang: "(case h_language exampleHints of Some l \<Rightarrow> if l = [] then js ''en'' else l
      | None \<Rightarrow> js ''en'') = [101, 110]"
    by code_simp
  have p: "fst (generateResponse asciiToLowerCase exampleParse
          (netOf [Responds 120 (Content oneReply),
                  Responds 120 (Content (js '' Dear Ann, we will refund you. ''))])
          (Some (newTemplateRetriever exampleCorpus)) exampleEmail exampleHints True world0)
        = Returns \<lparr>rr_response = js ''Dear Ann, we will refund you.'', rr_language = js ''en'',
               rr_matchedTemplates = Some [\<lparr>mt_id = js ''refund_001'', mt_scenario = js ''money back'',
                                             mt_score = 3\<rparr>]\<rparr>"
    by code_simp
  have "fst (generateResponse asciiToLowerCase exampleParse (netOf [Responds 120 (Content nullReply)])
          (Some (newTemplateRetriever exampleCorpus)) exampleEmail exampleHints True world0)
        = Returns \<lparr>rr_response = ?notice, rr_language = [101, 110], rr_matchedTemplates = None\<rparr>"
    using generateResponse_null_selection [where useTemplates = True and a = exampleHints
        and c = "js ''Refund''" and net = "netOf [Responds 120 (Content nullReply)]" and w = world0
        and reply = nullReply and ?w1.0 = ?w1 and JSON_parse = exampleParse and d = ?d
        and r = "newTemplateRetriever exampleCorpus" and email = exampleEmail
        and lc = asciiToLowerCase]
      h1 h3 h4 h5 unfolding notice_eq lang by blast
  with h1 h2 h3 h4 p show ?thesis by simp
qed



text \<open>
  Claim C4: when there are candidates and the reply of the selection prompt does not parse,
  the selection is the first candidate, which has the highest score, with the fixed
  fallback reasoning; \<open>generateResponse\<close> goes on to personalize it and lists it as the
  matched template.
\<close>

theorem selection_parse_failure_fallback:
  assumes "findBestMatches lc r email c 10 \<noteq> []"
    and "chat net w = (Returns reply, w1)"
    and "JSON_parse (cleanResponse reply) = None"
  shows "selectTemplateWithReasoning lc JSON_parse net r email c w =
           (Returns (Some \<lparr>sel_template = template (hd (findBestMatches lc r email c 10)),
                  sel_scenario = scenario (template (hd (findBestMatches lc r email c 10))),
                  sel_score = score (hd (findBestMatches lc r email c 10)),
                  sel_reasoning = Some (js ''Fallback to highest scoring template due to selection error'')\<rparr>),
            w1)
       \<and> (\<forall>m \<in> set (findBestMatches lc r email c 10). score m \<le> score (hd (findBestMatches lc r email c 10)))
       \<and> (useTemplates \<and> h_category a = Some c \<and> c \<noteq> [] \<longrightarrow>
            generateResponse lc JSON_parse net (Some r) email a useTemplates w =
              (case chat net w1 of
                 (Throws error, w2) \<Rightarrow> (Throws error, w2)
               | (Pending, w2) \<Rightarrow> (Pending, w2)
               | (Returns personalized, w2) \<Rightarrow>
                   (Returns \<lparr>rr_response = trim personalized,
                         rr_language = orElse (h_language a) (js ''en''),
                         rr_matchedTemplates =
                           Some [\<lparr>mt_id = tid (template (hd (findBestMatches lc r email c 10))),
                                  mt_scenario = scenario (template (hd (findBestMatches lc r email c 10))),
                                  mt_score = score (hd (findBestMatches lc r email c 10))\<rparr>]\<rparr>, w2)))"
proof -
  let ?M = "findBestMatches lc r email c 10"
  have sel: "selectTemplateWithReasoning lc JSON_parse net r email c w
      = (Returns (Some (fallbackSelection ?M)), w1)"
    using assms by (rule selectTemplateWithReasoning_unparsed [where JSON_parse = JSON_parse])
  have top: "\<forall>m \<in> set ?M. score m \<le> score (hd ?M)"
    by (blast intro: hd_findBestMatches_max)
  have gen: "generateResponse lc JSON_parse net (Some r) email a useTemplates w =
              (case chat net w1 of
                 (Throws error, w2) \<Rightarrow> (Throws error, w2)
               | (Pending, w2) \<Rightarrow> (Pending, w2)
               | (Returns personalized, w2) \<Rightarrow>
                   (Returns \<lparr>rr_response = trim personalized,
                         rr_language = orElse (h_language a) (js ''en''),
                         rr_matchedTemplates =
                           Some [\<lparr>mt_id = tid (template (hd ?M)),
                                  mt_scenario = scenario (template (hd ?M)),
                                  mt_score = score (hd ?M)\<rparr>]\<rparr>, w2))"
    if "useTemplates \<and> h_category a = Some c \<and> c \<noteq> []"
  proof -
    from that have "generateResponse lc JSON_parse net (Some r) email a useTemplates w =
        respondPersonalized net (orElse (h_language a) (js ''en'')) [] (fallbackSelection ?M) w1"
      by (simp add: generateResponse_templates sel)
    then show ?thesis
      by (simp add: respondPersonalized_def personalizeTemplate_def fallbackSelection_def Let_def
            split: prod.splits outcome.splits)
  qed
  from sel top gen show ?thesis by (simp add: fallbackSelection_def)
qed

text \<open>The reply is prose; the candidate of score 4.5 is selected.\<close>

theorem selection_parse_failure_fallback_witness:
  "map (\<lambda>m. tid (template m))
     (findBestMatches asciiToLowerCase (newTemplateRetriever exampleCorpus) exampleEmail (js ''Refund'') 10)
     = [js ''refund_003'', js ''refund_001'', js ''refund_002'']
   \<and> chat (netOf [Responds 120 (Content (js ''I pick the first one'')),
                  Responds 120 (Content (js ''Dear Ann''))]) world0
        = (Returns (js ''I pick the first one''),
           \<lparr>requests = 1, effects = [AbortTimer 90000, Request, ClearTimer]\<rparr>)
   \<and> exampleParse (cleanResponse (js ''I pick the first one'')) = None
   \<and> selectTemplateWithReasoning asciiToLowerCase exampleParse
        (netOf [Responds 120 (Content (js ''I pick the first one'')),
                Responds 120 (Content (js ''Dear Ann''))])
        (newTemplateRetriever exampleCorpus) exampleEmail (js ''Refund'') world0
      = (Returns (Some \<lparr>sel_template = orderTemplate, sel_scenario = js ''refund for an order'',
              sel_score = 9 / 2,
              sel_reasoning = Some (js ''Fallback to highest scoring template due to selection error'')\<rparr>),
         \<lparr>requests = 1, effects = [AbortTimer 90000, Request, ClearTimer]\<rparr>)"
proof -
  let ?w1 = "\<lparr>requests = 1, effects = [AbortTimer 90000, Request, ClearTimer]\<rparr>"
  let ?net = "netOf [Responds 120 (Content (js ''I pick the first one'')),
                     Responds 120 (Content (js ''Dear Ann''))]"
  let ?r = "newTemplateRetriever exampleCorpus"
  have ids: "map (\<lambda>m. tid (template m)) (findBestMatches asciiToLowerCase ?r exampleEmail (js ''Refund'') 10)
     = [js ''refund_003'', js ''refund_001'', js ''refund_002'']" by code_simp
  then have h1: "findBestMatches asciiToLowerCase ?r exampleEmail (js ''Refund'') 10 \<noteq> []" by auto
  have h2: "chat ?net world0 = (Returns (js ''I pick the first one''), ?w1)" by code_simp
  have h3: "exampleParse (cleanResponse (js ''I pick the first one'')) = None" by code_simp
  have top: "hd (findBestMatches asciiToLowerCase ?r exampleEmail (js ''Refund'') 10)
      = \<lparr>template = orderTemplate, score = 9 / 2, matchedKeywords = [js ''order'']\<rparr>" by code_simp
  have sc: "scenario orderTemplate = js ''refund for an order''" by code_simp
  from selection_parse_failure_fallback [where JSON_parse = exampleParse and lc = asciiToLowerCase,
      OF h1 h2 h3]
  have "selectTemplateWithReasoning asciiToLowerCase exampleParse ?net ?r exampleEmail (js ''Refund'') world0 =
           (Returns (Some \<lparr>sel_template = template (hd (findBestMatches asciiToLowerCase ?r exampleEmail (js ''Refund'') 10)),
                  sel_scenario = scenario (template (hd (findBestMatches asciiToLowerCase ?r exampleEmail (js ''Refund'') 10))),
                  sel_score = score (hd (findBestMatches asciiToLowerCase ?r exampleEmail (js ''Refund'') 10)),
                  sel_reasoning = Some (js ''Fallback to highest scoring template due to selection error'')\<rparr>),
            ?w1)"
    by (rule conjunct1)
  with ids h2 h3 top sc show ?thesis by simp
qed


end
